theory Spec2Isabelle
  imports Main "HOL-Library.Sublist"
begin

section \<open>JavaScript strings\<close>

text \<open>
  A string is the list of its UTF-16 code units, and a \<open>char\<close> is a code unit below 256:
  \<open>CHR 0xA0\<close> is U+00A0, \<open>CHR 0xC9\<close> is U+00C9. The development covers the strings
  whose code units are all below 256 (ASCII and Latin-1).

  \<open>isSpace\<close> is the white space that \<open>String.prototype.trim\<close> and the regular expression
  class \<open>\s\<close> recognise: among the code units below 256 these are tab, line feed,
  vertical tab, form feed, carriage return, space and the no-break space U+00A0.
\<close>

definition isSpace :: "char \<Rightarrow> bool" where
  "isSpace c =
     (c \<in> set [CHR 0x09, CHR 0x0A, CHR 0x0B, CHR 0x0C, CHR 0x0D, CHR 0x20, CHR 0xA0])"

definition trim :: "string \<Rightarrow> string" where
  "trim s = rev (dropWhile isSpace (rev (dropWhile isSpace s)))"

text \<open>
  \<open>String.prototype.toLowerCase\<close> works code unit by code unit below 256: the capitals
  are A to Z (65 to 90), U+00C0 to U+00D6 (192 to 214) and U+00D8 to U+00DE (216 to 222),
  and each has its small letter 32 code units higher.
\<close>

definition lowerChar :: "char \<Rightarrow> char" where
  "lowerChar c =
     (let n = (of_char c :: nat)
      in if (65 \<le> n \<and> n \<le> 90) \<or> (192 \<le> n \<and> n \<le> 214) \<or> (216 \<le> n \<and> n \<le> 222)
         then char_of (n + 32)
         else c)"

definition toLowerCase :: "string \<Rightarrow> string" where
  "toLowerCase s = map lowerChar s"

text \<open>\<open>s.includes(q)\<close>, named \<open>includesStr\<close> here: some suffix of \<open>s\<close> starts with \<open>q\<close>.\<close>

fun includesStr :: "string \<Rightarrow> string \<Rightarrow> bool" where
  "includesStr [] q = (q = [])"
| "includesStr (c # s) q = (prefix q (c # s) \<or> includesStr s q)"

definition startsWith :: "string \<Rightarrow> string \<Rightarrow> bool" where
  "startsWith s q = prefix q s"

text \<open>\<open>xs.join(sep)\<close>.\<close>

fun join :: "string \<Rightarrow> string list \<Rightarrow> string" where
  "join sep [] = []"
| "join sep [x] = x"
| "join sep (x # y # ys) = x @ sep @ join sep (y # ys)"

text \<open>\<open>a || b\<close> on strings: the empty string is falsy.\<close>

definition orElse :: "string \<Rightarrow> string \<Rightarrow> string" where
  "orElse a b = (if a \<noteq> [] then a else b)"

subsection \<open>Numbers in template strings\<close>

text \<open>The decimal form of a natural number, as a template string prints an array index or a status.\<close>

definition digitChar :: "nat \<Rightarrow> char" where
  "digitChar n = ''0123456789'' ! n"

function showNat :: "nat \<Rightarrow> string" where
  "showNat n = (if n < 10 then [digitChar n] else showNat (n div 10) @ [digitChar (n mod 10)])"
  by pat_completeness auto
termination
  by (relation "measure id") auto

declare showNat.simps [simp del]

section \<open>Numbers of the icon data\<close>

text \<open>
  The members of a resolution entry are pixel counts. The model takes them from the safe
  integers, the integers from \<open>-(2^53 - 1)\<close> to \<open>2^53 - 1\<close> that a JavaScript number holds
  exactly (\<open>Number.isSafeInteger\<close>); \<open>intOf\<close> is the value of one.
\<close>

typedef safeInteger = "{n :: int. - 9007199254740991 \<le> n \<and> n \<le> 9007199254740991}"
  morphisms intOf toSafeInteger
  by (rule exI [of _ 0]) simp

instantiation safeInteger :: equal
begin

definition equal_safeInteger :: "safeInteger \<Rightarrow> safeInteger \<Rightarrow> bool" where
  "equal_safeInteger a b = (intOf a = intOf b)"

instance
  by standard (simp add: equal_safeInteger_def intOf_inject)

end

text \<open>
  \<open>${n}\<close> in a template string: a number below \<open>10^21\<close> in absolute value that is an
  integer is printed with all its digits.
\<close>

definition showSafeInteger :: "safeInteger \<Rightarrow> string" where
  "showSafeInteger n =
     (if intOf n < 0 then CHR ''-'' # showNat (nat (- intOf n)) else showNat (nat (intOf n)))"

text \<open>
  The result of an arithmetic operation is the exact result rounded to the nearest number
  that a double holds, ties to the even significand. \<open>roundToDouble d\<close> is that rounding
  for an integer \<open>d\<close> with \<open>\<bar>d\<bar> < 2^54\<close>, which covers the difference of two safe integers:
  up to \<open>2^53\<close> every integer is held exactly, above it the even integers are.
\<close>

definition roundToDouble :: "int \<Rightarrow> int" where
  "roundToDouble d =
     (if \<bar>d\<bar> \<le> 9007199254740992 \<or> even d then d
      else if (d + 1) mod 4 = 0 then d + 1
      else d - 1)"

section \<open>Device records (types/device.ts)\<close>

text \<open>
  The part of the interface \<open>Device\<close> that the search, filter and icon functions read. The
  functions guard the object-valued members and \<open>sku\<close>, \<open>sysid\<close>, \<open>shortnames\<close> with
  \<open>?.\<close> and \<open>||\<close>, so these are optional here (\<open>None\<close> is \<open>undefined\<close>). Inside
  \<open>product\<close>, \<open>line\<close> and \<open>images\<close> a missing string and the empty string are
  not told apart by any expression below, so the members are plain strings.
\<close>

record DeviceProduct =
  product_abbrev :: string
  product_name :: string

record DeviceLine =
  line_id :: string
  line_name :: string

record DeviceIcon =
  icon_id :: string
  icon_resolutions :: "safeInteger list list"

record DeviceImages =
  images_default :: string
  images_nopadding :: string
  images_topology :: string

record Device =
  device_id :: string
  sku :: "string option"
  sysid :: "string option"
  shortnames :: "string list option"
  product :: "DeviceProduct option"
  line :: "DeviceLine option"
  icon :: "DeviceIcon option"
  images :: "DeviceImages option"

text \<open>\<open>device.product?.name || ""\<close> and its siblings.\<close>

definition productName :: "Device \<Rightarrow> string" where
  "productName d = (case product d of None \<Rightarrow> [] | Some p \<Rightarrow> product_name p)"

definition productAbbrev :: "Device \<Rightarrow> string" where
  "productAbbrev d = (case product d of None \<Rightarrow> [] | Some p \<Rightarrow> product_abbrev p)"

definition lineName :: "Device \<Rightarrow> string" where
  "lineName d = (case line d of None \<Rightarrow> [] | Some l \<Rightarrow> line_name l)"

definition skuOf :: "Device \<Rightarrow> string" where
  "skuOf d = (case sku d of None \<Rightarrow> [] | Some s \<Rightarrow> s)"

text \<open>\<open>device.sysid || device.id || ""\<close>.\<close>

definition identifierOf :: "Device \<Rightarrow> string" where
  "identifierOf d = orElse (case sysid d of None \<Rightarrow> [] | Some s \<Rightarrow> s) (orElse (device_id d) [])"

definition shortnamesOf :: "Device \<Rightarrow> string list" where
  "shortnamesOf d = (case shortnames d of None \<Rightarrow> [] | Some ns \<Rightarrow> ns)"

section \<open>Search matcher (utils/deviceFilters.ts)\<close>

definition searchableFields :: "Device \<Rightarrow> string" where
  "searchableFields d =
     toLowerCase (join '' ''
       ([productName d, productAbbrev d, lineName d, skuOf d, identifierOf d] @ shortnamesOf d))"

definition matchesSearchQuery :: "Device \<Rightarrow> string \<Rightarrow> bool" where
  "matchesSearchQuery d query =
     (let q = toLowerCase (trim query)
      in if q = [] then True else includesStr (searchableFields d) q)"

definition filterDevices :: "Device list \<Rightarrow> string \<Rightarrow> Device list" where
  "filterDevices devices query =
     (if length devices = 0 then []
      else filter (\<lambda>device. matchesSearchQuery device query) devices)"

subsection \<open>Autocomplete suggestions\<close>


datatype MatchType = Exact | Prefix | Contains

text \<open>
  The loop \<open>for (const field of fields)\<close> with its two variables \<open>bestMatchType\<close> and
  \<open>hasExact\<close>; the \<open>break\<close> ends the recursion.
\<close>

fun scanFields ::
  "string \<Rightarrow> string list \<Rightarrow> MatchType option \<times> bool \<Rightarrow> MatchType option \<times> bool" where
  "scanFields q [] st = st"
| "scanFields q (field # rest) (bestMatchType, hasExact) =
     (if field = [] then scanFields q rest (bestMatchType, hasExact)
      else if field = q then (Some Exact, True)
      else if startsWith field q \<and> \<not> hasExact then scanFields q rest (Some Prefix, hasExact)
      else if includesStr field q \<and> \<not> hasExact \<and> bestMatchType \<noteq> Some Prefix
           then scanFields q rest (Some Contains, hasExact)
      else scanFields q rest (bestMatchType, hasExact))"

definition deviceFields :: "Device \<Rightarrow> string list" where
  "deviceFields device =
     [toLowerCase (productName device), toLowerCase (productAbbrev device),
      toLowerCase (lineName device), toLowerCase (skuOf device),
      toLowerCase (identifierOf device), toLowerCase (join '' '' (shortnamesOf device))]"

definition bestMatchTypeOf :: "string \<Rightarrow> Device \<Rightarrow> MatchType option" where
  "bestMatchTypeOf q device = fst (scanFields q (deviceFields device) (None, False))"





section \<open>Icon URLs (utils/deviceIconUtils.ts)\<close>

datatype IconContext = Small | Medium | Large

definition contextName :: "IconContext \<Rightarrow> string" where
  "contextName context =
     (case context of Small \<Rightarrow> ''small'' | Medium \<Rightarrow> ''medium'' | Large \<Rightarrow> ''large'')"

definition ICON_CONTEXT_RESOLUTIONS :: "IconContext \<Rightarrow> safeInteger list" where
  "ICON_CONTEXT_RESOLUTIONS context =
     (case context of
        Small \<Rightarrow> [toSafeInteger 128, toSafeInteger 256]
      | Medium \<Rightarrow> [toSafeInteger 64, toSafeInteger 128]
      | Large \<Rightarrow> [toSafeInteger 128, toSafeInteger 256])"

definition getCacheKey :: "string \<Rightarrow> IconContext \<Rightarrow> string" where
  "getCacheKey deviceId context = deviceId @ ''-'' @ contextName context"

text \<open>
  \<open>r[i]\<close> for an array \<open>r\<close>: \<open>None\<close> is \<open>undefined\<close>. A resolution entry is a list of
  numbers of any length.
\<close>

definition nthOpt :: "'a list \<Rightarrow> nat \<Rightarrow> 'a option" where
  "nthOpt xs i = (if i < length xs then Some (xs ! i) else None)"

text \<open>
  \<open>Math.abs(r[0] - preferredSize)\<close>: \<open>None\<close> is \<open>NaN\<close>, the result when \<open>r[0]\<close> is
  \<open>undefined\<close>. \<open>lessThan\<close> is \<open><\<close> on these results; a comparison with \<open>NaN\<close> is false.
\<close>

definition distanceOf :: "safeInteger \<Rightarrow> safeInteger list \<Rightarrow> int option" where
  "distanceOf preferredSize r =
     (case nthOpt r 0 of
        None \<Rightarrow> None
      | Some w \<Rightarrow> Some \<bar>roundToDouble (intOf w - intOf preferredSize)\<bar>)"

definition lessThan :: "int option \<Rightarrow> int option \<Rightarrow> bool" where
  "lessThan a b = (case (a, b) of (Some x, Some y) \<Rightarrow> x < y | _ \<Rightarrow> False)"

text \<open>The callback of \<open>largerSizes.reduce\<close>.\<close>

definition closer ::
  "safeInteger \<Rightarrow> safeInteger list \<Rightarrow> safeInteger list \<Rightarrow> safeInteger list" where
  "closer preferredSize prev cur =
     (if lessThan (distanceOf preferredSize cur) (distanceOf preferredSize prev) then cur
      else prev)"

definition selectResolution :: "safeInteger list list \<Rightarrow> IconContext \<Rightarrow> safeInteger list" where
  "selectResolution resolutions context =
     (let preferredSizes = ICON_CONTEXT_RESOLUTIONS context;
          preferredSize = hd preferredSizes
      in case find (\<lambda>r. nthOpt r 0 = Some preferredSize) resolutions of
           Some exactMatch \<Rightarrow> exactMatch
         | None \<Rightarrow>
             (let largerSizes =
                    filter (\<lambda>r. case nthOpt r 0 of
                                  None \<Rightarrow> False
                                | Some w \<Rightarrow> intOf w \<ge> intOf preferredSize)
                      resolutions
              in if length largerSizes > 0
                 then foldl (closer preferredSize) (hd largerSizes) (tl largerSizes)
                 else (case resolutions of
                         [] \<Rightarrow> [toSafeInteger 32, toSafeInteger 32]
                       | _ \<Rightarrow> last resolutions)))"

text \<open>\<open>${width}\<close> in a template string, for a member of a resolution entry.\<close>

definition templateNumber :: "safeInteger option \<Rightarrow> string" where
  "templateNumber v = (case v of None \<Rightarrow> ''undefined'' | Some n \<Rightarrow> showSafeInteger n)"

text \<open>\<open>device.images?.default\<close>, \<open>device.icon?.resolutions\<close> and \<open>device.icon.id\<close>.\<close>

definition imagesDefaultOf :: "Device \<Rightarrow> string" where
  "imagesDefaultOf device = (case images device of None \<Rightarrow> [] | Some im \<Rightarrow> images_default im)"

definition resolutionsOf :: "Device \<Rightarrow> safeInteger list list" where
  "resolutionsOf device = (case icon device of None \<Rightarrow> [] | Some ic \<Rightarrow> icon_resolutions ic)"

definition iconIdOf :: "Device \<Rightarrow> string" where
  "iconIdOf device = (case icon device of None \<Rightarrow> ''undefined'' | Some ic \<Rightarrow> icon_id ic)"

text \<open>
  \<open>getIconUrl\<close> reads and writes the module-level \<open>urlCache\<close>; it takes the cache
  and returns the URL with the cache after the call.
\<close>

definition getIconUrl ::
  "(string \<Rightarrow> string option) \<Rightarrow> Device \<Rightarrow> IconContext
     \<Rightarrow> string \<times> (string \<Rightarrow> string option)" where
  "getIconUrl urlCache device context =
     (let cacheKey = getCacheKey (device_id device) context
      in case urlCache cacheKey of
           Some url \<Rightarrow> (url, urlCache)
         | None \<Rightarrow>
             (let url =
                (if imagesDefaultOf device \<noteq> []
                 then (let width = hd (ICON_CONTEXT_RESOLUTIONS context)
                       in ''https://images.svc.ui.com/?u=https://static.ui.com/fingerprint/ui/images/''
                          @ device_id device @ ''/default/'' @ imagesDefaultOf device
                          @ ''.png&w='' @ showSafeInteger width @ ''&q=100&fmt=png'')
                 else if length (resolutionsOf device) > 0
                 then (let r = selectResolution (resolutionsOf device) context;
                           width = nthOpt r 0;
                           height = nthOpt r 1
                       in ''https://static.ui.com/fingerprint/ui/icons/'' @ iconIdOf device
                          @ ''_'' @ templateNumber width @ ''x'' @ templateNumber height @ ''.png'')
                 else ''/placeholder-icon.png'')
              in (url, urlCache(cacheKey \<mapsto> url))))"

section \<open>Query sanitising (utils/securityUtils.ts)\<close>

text \<open>
  \<open>\w\<close> of the regular expressions (without the \<open>u\<close> flag): the ASCII letters, the
  digits and the underscore.
\<close>

definition isWordChar :: "char \<Rightarrow> bool" where
  "isWordChar c =
     (c \<in> set ''abcdefghijklmnopqrstuvwxyzABCDEFGHIJKLMNOPQRSTUVWXYZ0123456789_'')"

text \<open>The alternatives of \<open>/\b(and|or|not|union|select|insert|update|delete|drop|create|alter)\b/gi\<close>, in order.\<close>

definition sqlWords :: "string list" where
  "sqlWords = [''and'', ''or'', ''not'', ''union'', ''select'', ''insert'', ''update'',
               ''delete'', ''drop'', ''create'', ''alter'']"

text \<open>
  Alternative \<open>w\<close> matches at the start of \<open>s\<close>: the next characters are \<open>w\<close> up to letter
  case, and a word boundary follows (the end of the input or a non-word character).
\<close>

definition matchWordAt :: "string \<Rightarrow> string \<Rightarrow> bool" where
  "matchWordAt w s =
     (length w \<le> length s \<and> toLowerCase (take (length w) s) = w \<and>
      (case drop (length w) s of [] \<Rightarrow> True | c # _ \<Rightarrow> \<not> isWordChar c))"

definition matchSqlWord :: "string \<Rightarrow> string option" where
  "matchSqlWord s = find (\<lambda>w. matchWordAt w s) sqlWords"

lemma sqlWords_nonempty: "w \<in> set sqlWords \<Longrightarrow> 0 < length w"
  unfolding sqlWords_def by auto

lemma matchSqlWord_Some:
  "matchSqlWord s = Some w \<Longrightarrow> w \<in> set sqlWords \<and> matchWordAt w s"
  unfolding matchSqlWord_def find_Some_iff by (metis nth_mem)

lemma matchSqlWord_length:
  "matchSqlWord s = Some w \<Longrightarrow> 0 < length w \<and> length w \<le> length s"
  using matchSqlWord_Some [of s w] sqlWords_nonempty [of w]
  by (simp add: matchWordAt_def)

text \<open>
  The global replace scans from the left. \<open>prevWord\<close> says whether the character before
  the current position (in the input, not in the output) is a word character: a match
  needs a word boundary in front of it. After a match the scan goes on behind it.
\<close>

function removeSqlWords :: "bool \<Rightarrow> string \<Rightarrow> string" where
  "removeSqlWords prevWord [] = []"
| "removeSqlWords prevWord (c # s) =
     (if prevWord then c # removeSqlWords (isWordChar c) s
      else (case matchSqlWord (c # s) of
              Some w \<Rightarrow> removeSqlWords True (drop (length w) (c # s))
            | None \<Rightarrow> c # removeSqlWords (isWordChar c) s))"
  by pat_completeness auto
termination
proof (relation "measure (\<lambda>(p, s). length s)")
  show "wf (measure (\<lambda>(p :: bool, s :: string). length s))"
    by simp
next
  fix prevWord :: bool and c :: char and s :: string
  show "((isWordChar c, s), prevWord, c # s) \<in> measure (\<lambda>(p, s). length s)"
    by simp
next
  fix prevWord :: bool and c :: char and s w :: string
  assume "matchSqlWord (c # s) = Some w"
  then have "0 < length w"
    using matchSqlWord_length by blast
  then show "((True, drop (length w) (c # s)), prevWord, c # s) \<in> measure (\<lambda>(p, s). length s)"
    by simp
next
  fix prevWord :: bool and c :: char and s :: string
  show "((isWordChar c, s), prevWord, c # s) \<in> measure (\<lambda>(p, s). length s)"
    by simp
qed

text \<open>\<open>replace(/\.\./g, "")\<close>: pairs of dots, left to right.\<close>

fun removeDotDot :: "string \<Rightarrow> string" where
  "removeDotDot (a # b # s) =
     (if a = CHR ''.'' \<and> b = CHR ''.'' then removeDotDot s else a # removeDotDot (b # s))"
| "removeDotDot s = s"

text \<open>\<open>replace(/\*{2,}/g, "*")\<close>: a run of two or more stars becomes one star.\<close>

fun collapseStars :: "string \<Rightarrow> string" where
  "collapseStars (a # b # s) =
     (if a = CHR ''*'' \<and> b = CHR ''*'' then collapseStars (b # s) else a # collapseStars (b # s))"
| "collapseStars s = s"

text \<open>\<open>replace(/[\u0000-\u0008\u000B\u000C\u000E-\u001F\u007F]/g, "")\<close>.\<close>

definition isControl :: "char \<Rightarrow> bool" where
  "isControl c =
     (let n = (of_char c :: nat)
      in n \<le> 8 \<or> n = 11 \<or> n = 12 \<or> (14 \<le> n \<and> n \<le> 31) \<or> n = 127)"

definition removeControl :: "string \<Rightarrow> string" where
  "removeControl s = filter (\<lambda>c. \<not> isControl c) s"

text \<open>\<open>replace(/\s+/g, " ")\<close>: a run of white space becomes one space.\<close>

function normalizeWhitespace :: "string \<Rightarrow> string" where
  "normalizeWhitespace [] = []"
| "normalizeWhitespace (c # s) =
     (if isSpace c then CHR 0x20 # normalizeWhitespace (dropWhile isSpace s)
      else c # normalizeWhitespace s)"
  by pat_completeness auto
termination
proof (relation "measure length")
  show "wf (measure length)"
    by simp
next
  fix c :: char and s :: string
  have "length (dropWhile isSpace s) \<le> length s"
    by (rule length_dropWhile_le)
  then show "(dropWhile isSpace s, c # s) \<in> measure length"
    by simp
next
  fix c :: char and s :: string
  show "(s, c # s) \<in> measure length"
    by simp
qed

text \<open>
  \<open>sanitizeSearchQuery(query)\<close> with the default \<open>maxLength = 100\<close>. DOMPurify is a
  library outside the repository: \<open>purify\<close> stands for
  \<open>DOMPurify.sanitize(_, {ALLOWED_TAGS: [], ALLOWED_ATTR: [], ALLOW_DATA_ATTR: false})\<close>.
\<close>

definition sanitizeSearchQuery :: "(string \<Rightarrow> string) \<Rightarrow> string \<Rightarrow> string" where
  "sanitizeSearchQuery purify query =
     (let sanitized = take 100 query;
          sanitized = purify sanitized;
          sanitized = removeSqlWords False sanitized;
          sanitized = removeDotDot sanitized;
          sanitized = collapseStars sanitized;
          sanitized = removeControl sanitized;
          sanitized = trim (normalizeWhitespace sanitized)
      in sanitized)"

section \<open>Search hook (hooks/useDeviceSearch.ts)\<close>

definition useDeviceSearch :: "(string \<Rightarrow> string) \<Rightarrow> Device list \<Rightarrow> string \<Rightarrow> Device list" where
  "useDeviceSearch purify devices query =
     (let sanitizedQuery = sanitizeSearchQuery purify query
      in filterDevices devices sanitizedQuery)"


section \<open>View-state synchroniser and filter composer (hooks/useDeviceFilters.ts)\<close>

text \<open>
  \<open>URLSearchParams\<close> as a map from parameter names to values. Writing the parameters into
  the address bar and reading them back is the browser's encoding and decoding, which is
  lossless and not part of the repository.
\<close>

type_synonym URLSearchParams = "string \<Rightarrow> string option"

text \<open>\<open>s.split(sep)\<close> for a separator of one character.\<close>

fun splitOn :: "char \<Rightarrow> string \<Rightarrow> string list" where
  "splitOn sep [] = [[]]"
| "splitOn sep (c # s) =
     (if c = sep then [] # splitOn sep s
      else (case splitOn sep s of
              [] \<Rightarrow> [[c]]
            | x # xs \<Rightarrow> (c # x) # xs))"

text \<open>\<open>searchParams.get("q") || ""\<close>.\<close>

definition getQuery :: "URLSearchParams \<Rightarrow> string" where
  "getQuery searchParams =
     (case searchParams ''q'' of None \<Rightarrow> [] | Some v \<Rightarrow> orElse v [])"

text \<open>\<open>searchParams.get("lines")?.split(",").filter(Boolean) || []\<close>.\<close>

definition getProductLineFilter :: "URLSearchParams \<Rightarrow> string list" where
  "getProductLineFilter searchParams =
     (case searchParams ''lines'' of
        None \<Rightarrow> []
      | Some v \<Rightarrow> filter (\<lambda>t. t \<noteq> []) (splitOn CHR '','' v))"

definition buildUrlParams :: "string \<Rightarrow> string list \<Rightarrow> URLSearchParams" where
  "buildUrlParams searchQuery lineFilters =
     (let params = Map.empty;
          params = (if trim searchQuery \<noteq> [] then params(''q'' \<mapsto> trim searchQuery)
                    else params);
          params = (if length lineFilters > 0 then params(''lines'' \<mapsto> join '','' lineFilters)
                    else params)
      in params)"

text \<open>\<open>device.line?.name && productLineFilter.includes(device.line.name)\<close>.\<close>

definition productLineFilterFn :: "string list \<Rightarrow> Device \<Rightarrow> bool" where
  "productLineFilterFn productLineFilter device =
     (case line device of
        None \<Rightarrow> False
      | Some l \<Rightarrow> line_name l \<noteq> [] \<and> line_name l \<in> set productLineFilter)"

text \<open>
  The member \<open>fullyFilteredDevices\<close> of the hook's result, for the device list (or
  \<open>null\<close>) and the URL parameters the hook reads.
\<close>

definition fullyFilteredDevices ::
  "(string \<Rightarrow> string) \<Rightarrow> Device list option \<Rightarrow> URLSearchParams \<Rightarrow> Device list" where
  "fullyFilteredDevices purify devices searchParams =
     (let query = getQuery searchParams;
          productLineFilter = getProductLineFilter searchParams;
          searchFiltered =
            useDeviceSearch purify (case devices of None \<Rightarrow> [] | Some ds \<Rightarrow> ds) query
      in if length productLineFilter = 0 then searchFiltered
         else filter (productLineFilterFn productLineFilter) searchFiltered)"

section \<open>Untyped payloads\<close>

text \<open>
  The value that \<open>response.json()\<close> returns. An object is the list of its members in
  order; a lookup finds the first member with the key. Numbers are the integers.
\<close>

datatype json =
    JNull
  | JBool bool
  | JNumber int
  | JString string
  | JArray "json list"
  | JObject "(string \<times> json) list"

text \<open>JavaScript truthiness.\<close>

definition truthy :: "json \<Rightarrow> bool" where
  "truthy j =
     (case j of
        JNull \<Rightarrow> False
      | JBool b \<Rightarrow> b
      | JNumber n \<Rightarrow> n \<noteq> 0
      | JString s \<Rightarrow> s \<noteq> []
      | JArray _ \<Rightarrow> True
      | JObject _ \<Rightarrow> True)"

text \<open>\<open>typeof j === "object"\<close> for a value that is not \<open>null\<close>.\<close>

definition isObjectType :: "json \<Rightarrow> bool" where
  "isObjectType j = (case j of JArray _ \<Rightarrow> True | JObject _ \<Rightarrow> True | _ \<Rightarrow> False)"

text \<open>
  \<open>key in j\<close> together with \<open>j[key]\<close>, for the member names this module looks up
  (\<open>devices\<close>, \<open>id\<close>, \<open>icon\<close>, ...): an array has none of them, and neither has
  \<open>Object.prototype\<close>.
\<close>

definition fieldOf :: "json \<Rightarrow> string \<Rightarrow> json option" where
  "fieldOf j key = (case j of JObject members \<Rightarrow> map_of members key | _ \<Rightarrow> None)"

section \<open>Schemas (utils/validationSchemas.ts)\<close>

text \<open>
  The part of zod that the schemas use. \<open>ZObject\<close> lists the keys of \<open>z.object\<close> in
  order, each required or \<open>.optional()\<close>; parsing an object keeps the listed keys and
  drops the others. \<open>ZRecord\<close> is \<open>z.record(z.string(), _)\<close>.
\<close>

datatype presence = Required | Optional

datatype schema =
    ZString
  | ZNumber
  | ZBoolean
  | ZUnknown
  | ZArray schema
  | ZRecord schema
  | ZObject "(string \<times> presence \<times> schema) list"

text \<open>\<open>schema.parse(j)\<close>: the parsed value, or \<open>None\<close> when it throws a \<open>ZodError\<close>.\<close>

fun parse :: "schema \<Rightarrow> json \<Rightarrow> json option"
  and parseShape :: "(string \<times> presence \<times> schema) list \<Rightarrow> (string \<times> json) list
                     \<Rightarrow> (string \<times> json) list option" where
  "parse ZString j = (case j of JString _ \<Rightarrow> Some j | _ \<Rightarrow> None)"
| "parse ZNumber j = (case j of JNumber _ \<Rightarrow> Some j | _ \<Rightarrow> None)"
| "parse ZBoolean j = (case j of JBool _ \<Rightarrow> Some j | _ \<Rightarrow> None)"
| "parse ZUnknown j = Some j"
| "parse (ZArray s) j =
     (case j of
        JArray xs \<Rightarrow> map_option JArray (those (map (parse s) xs))
      | _ \<Rightarrow> None)"
| "parse (ZRecord s) j =
     (case j of
        JObject members \<Rightarrow>
          map_option JObject
            (those (map (\<lambda>(k, v). map_option (Pair k) (parse s v)) members))
      | _ \<Rightarrow> None)"
| "parse (ZObject shape) j =
     (case j of
        JObject members \<Rightarrow> map_option JObject (parseShape shape members)
      | _ \<Rightarrow> None)"
| "parseShape [] members = Some []"
| "parseShape ((key, p, s) # shape) members =
     (case map_of members key of
        None \<Rightarrow> (if p = Optional then parseShape shape members else None)
      | Some v \<Rightarrow>
          (case parse s v of
             None \<Rightarrow> None
           | Some v' \<Rightarrow> map_option (Cons (key, v')) (parseShape shape members)))"

definition DeviceIconSchema :: schema where
  "DeviceIconSchema =
     ZObject [(''id'', Required, ZString),
              (''resolutions'', Required, ZArray (ZArray ZNumber))]"

definition DeviceImagesSchema :: schema where
  "DeviceImagesSchema =
     ZObject [(''default'', Required, ZString),
              (''nopadding'', Required, ZString),
              (''topology'', Required, ZString)]"

definition DeviceLineSchema :: schema where
  "DeviceLineSchema = ZObject [(''id'', Required, ZString), (''name'', Required, ZString)]"

definition DeviceProductSchema :: schema where
  "DeviceProductSchema =
     ZObject [(''abbrev'', Required, ZString), (''name'', Required, ZString)]"

definition DeviceUISPSchema :: schema where
  "DeviceUISPSchema =
     ZObject [(''bleServices'', Optional, ZRecord ZUnknown),
              (''firmware'', Required,
                 ZObject [(''board'', Required, ZArray ZString),
                          (''platform'', Required, ZString)]),
              (''line'', Required, ZString),
              (''nameLegacy'', Required, ZArray ZString)]"

definition DeviceUnifiSchema :: schema where
  "DeviceUnifiSchema =
     ZObject [(''adoptability'', Required, ZString),
              (''nameLegacy'', Required, ZArray ZString),
              (''network'', Optional,
                 ZObject [(''bleServices'', Required, ZArray ZUnknown),
                          (''chipset'', Optional, ZString),
                          (''deviceCapabilities'', Required, ZArray ZString),
                          (''diagram'', Optional, ZArray ZString),
                          (''ethernetMaxSpeedMegabitsPerSecond'', Optional, ZNumber),
                          (''features'', Optional, ZRecord ZUnknown),
                          (''knownUnsupportedFeatures'', Optional, ZArray ZString),
                          (''linkNegotiation'', Optional, ZRecord ZUnknown),
                          (''minimumFirmwareRequired'', Optional, ZString),
                          (''model'', Required, ZString),
                          (''networkGroups'', Optional, ZRecord ZString),
                          (''numberOfPorts'', Optional, ZNumber),
                          (''ports'', Optional, ZRecord ZString),
                          (''power'', Optional, ZObject [(''capacity'', Required, ZNumber)]),
                          (''radios'', Optional, ZRecord ZUnknown),
                          (''shadowMode'', Optional,
                             ZObject [(''interconnectPortInterface'', Required, ZString),
                                      (''interconnectPortNumber'', Required, ZNumber)]),
                          (''subtypes'', Optional, ZArray ZString),
                          (''systemIdHexadecimal'', Required, ZString),
                          (''type'', Required, ZString)])]"

definition DeviceComplianceSchema :: schema where
  "DeviceComplianceSchema =
     ZObject [(''fcc'', Optional, ZString),
              (''ic'', Optional, ZString),
              (''icEmi'', Optional, ZString),
              (''model'', Required, ZString),
              (''modelName'', Optional, ZString),
              (''ncc'', Optional, ZString),
              (''rcm'', Optional, ZBoolean),
              (''rfCmFcc'', Optional, ZNumber),
              (''rfCmIc'', Optional, ZNumber),
              (''text'', Optional, ZRecord (ZArray ZString)),
              (''wifi'', Optional, ZString),
              (''anatel'', Optional, ZString),
              (''cn'', Optional, ZString),
              (''jpa'', Optional, ZArray ZString),
              (''jrf'', Optional, ZArray ZString),
              (''indoorOnly'', Optional, ZBoolean)]"

definition DeviceBTLESchema :: schema where
  "DeviceBTLESchema =
     ZObject [(''factoryDefault'', Required, ZString),
              (''userConfigured'', Required, ZString)]"

definition DeviceShape :: "(string \<times> presence \<times> schema) list" where
  "DeviceShape =
     [(''btle'', Optional, DeviceBTLESchema),
      (''compliance'', Optional, DeviceComplianceSchema),
      (''deviceType'', Optional, ZString),
      (''guids'', Required, ZArray ZString),
      (''icon'', Required, DeviceIconSchema),
      (''id'', Required, ZString),
      (''images'', Required, DeviceImagesSchema),
      (''jrf'', Optional, ZArray ZString),
      (''line'', Required, DeviceLineSchema),
      (''minAdoptVersion'', Optional, ZObject [(''net'', Required, ZString)]),
      (''product'', Required, DeviceProductSchema),
      (''shortnames'', Required, ZArray ZString),
      (''sku'', Required, ZString),
      (''sysid'', Optional, ZString),
      (''sysids'', Required, ZArray ZString),
      (''triplets'', Required,
         ZArray (ZObject [(''k1'', Optional, ZString),
                          (''k2'', Optional, ZString),
                          (''k3'', Optional, ZString)])),
      (''unifi'', Optional, DeviceUnifiSchema),
      (''uisp'', Optional, DeviceUISPSchema),
      (''videos'', Optional, ZRecord ZUnknown),
      (''isARSupported'', Optional, ZBoolean)]"

definition DeviceSchema :: schema where
  "DeviceSchema = ZObject DeviceShape"

definition DeviceResponseSchema :: schema where
  "DeviceResponseSchema =
     ZObject [(''devices'', Required, ZArray DeviceSchema),
              (''version'', Required, ZString)]"

section \<open>Validation with graceful handling (utils/validationUtils.ts)\<close>

record ValidationResult =
  vr_success :: bool
  vr_data :: "json option"
  vr_error :: "string option"
  vr_originalData :: json

text \<open>
  The text of \<open>ZodError.message\<close> is zod's; \<open>zodMessage\<close> stands for it. A failed
  \<open>parse\<close> always throws a \<open>ZodError\<close>.
\<close>

definition validateDeviceResponse :: "(schema \<Rightarrow> json \<Rightarrow> string) \<Rightarrow> json \<Rightarrow> ValidationResult" where
  "validateDeviceResponse zodMessage data =
     (case parse DeviceResponseSchema data of
        Some validatedData \<Rightarrow>
          \<lparr> vr_success = True, vr_data = Some validatedData, vr_error = None,
            vr_originalData = data \<rparr>
      | None \<Rightarrow>
          \<lparr> vr_success = False, vr_data = None,
            vr_error = Some (''Schema validation failed: '' @ zodMessage DeviceResponseSchema data),
            vr_originalData = data \<rparr>)"

definition validateDevice :: "(schema \<Rightarrow> json \<Rightarrow> string) \<Rightarrow> json \<Rightarrow> ValidationResult" where
  "validateDevice zodMessage data =
     (case parse DeviceSchema data of
        Some validatedData \<Rightarrow>
          \<lparr> vr_success = True, vr_data = Some validatedData, vr_error = None,
            vr_originalData = data \<rparr>
      | None \<Rightarrow>
          \<lparr> vr_success = False, vr_data = None,
            vr_error = Some (''Device schema validation failed: '' @ zodMessage DeviceSchema data),
            vr_originalData = data \<rparr>)"

text \<open>
  \<open>safeGet(obj, path, fallback)\<close>: \<open>None\<close> stands for the fallback. \<open>walk\<close> is the loop
  over the keys of the path, with the final \<open>current ?? fallback\<close>.
\<close>

fun walk :: "json \<Rightarrow> string list \<Rightarrow> json option" where
  "walk current [] = (if current = JNull then None else Some current)"
| "walk current (key # keys) =
     (if current = JNull \<or> \<not> isObjectType current then None
      else (case fieldOf current key of
              None \<Rightarrow> None
            | Some v \<Rightarrow> walk v keys))"

definition safeGet :: "json \<Rightarrow> string \<Rightarrow> json option" where
  "safeGet obj path =
     (if \<not> truthy obj \<or> \<not> isObjectType obj then None
      else walk obj (splitOn CHR ''.'' path))"

definition safeGetString :: "json \<Rightarrow> string \<Rightarrow> string \<Rightarrow> string" where
  "safeGetString obj path fallback =
     (case safeGet obj path of Some (JString s) \<Rightarrow> s | _ \<Rightarrow> fallback)"

definition safeGetArray :: "json \<Rightarrow> string \<Rightarrow> json list \<Rightarrow> json list" where
  "safeGetArray obj path fallback =
     (case safeGet obj path of Some (JArray xs) \<Rightarrow> xs | _ \<Rightarrow> fallback)"

definition safeGetObject :: "json \<Rightarrow> string \<Rightarrow> (string \<times> json) list \<Rightarrow> (string \<times> json) list" where
  "safeGetObject obj path fallback =
     (case safeGet obj path of Some (JObject members) \<Rightarrow> members | _ \<Rightarrow> fallback)"

text \<open>\<open>if (cond) safeDevice.key = value\<close>, for a key that \<open>safeDevice\<close> does not have yet.\<close>

definition assignIf ::
  "bool \<Rightarrow> string \<Rightarrow> json \<Rightarrow> (string \<times> json) list \<Rightarrow> (string \<times> json) list" where
  "assignIf cond key v members = (if cond then members @ [(key, v)] else members)"

text \<open>\<open>o.key\<close> is truthy, for an object given by its members.\<close>

definition truthyMember :: "(string \<times> json) list \<Rightarrow> string \<Rightarrow> bool" where
  "truthyMember members key = (case map_of members key of None \<Rightarrow> False | Some v \<Rightarrow> truthy v)"

definition createSafeDevice :: "(schema \<Rightarrow> json \<Rightarrow> string) \<Rightarrow> json \<Rightarrow> json" where
  "createSafeDevice zodMessage rawDevice =
     (let validation = validateDevice zodMessage rawDevice
      in case (if vr_success validation then vr_data validation else None) of
           Some data \<Rightarrow> data
         | None \<Rightarrow>
             (let safeDevice =
                    [(''id'', JString (safeGetString rawDevice ''id'' ''unknown-device'')),
                     (''guids'', JArray (safeGetArray rawDevice ''guids'' [])),
                     (''icon'', JObject
                        [(''id'', JString (safeGetString rawDevice ''icon.id'' ''unknown-icon'')),
                         (''resolutions'', JArray (safeGetArray rawDevice ''icon.resolutions'' []))]),
                     (''images'', JObject
                        [(''default'', JString (safeGetString rawDevice ''images.default'' [])),
                         (''nopadding'', JString (safeGetString rawDevice ''images.nopadding'' [])),
                         (''topology'', JString (safeGetString rawDevice ''images.topology'' []))]),
                     (''line'', JObject
                        [(''id'', JString (safeGetString rawDevice ''line.id'' ''unknown-line'')),
                         (''name'', JString (safeGetString rawDevice ''line.name'' ''Unknown Line''))]),
                     (''product'', JObject
                        [(''abbrev'', JString (safeGetString rawDevice ''product.abbrev'' [])),
                         (''name'', JString
                            (safeGetString rawDevice ''product.name'' ''Unknown Product''))]),
                     (''shortnames'', JArray (safeGetArray rawDevice ''shortnames'' [])),
                     (''sku'', JString (safeGetString rawDevice ''sku'' ''unknown-sku'')),
                     (''sysids'', JArray (safeGetArray rawDevice ''sysids'' [])),
                     (''triplets'', JArray (safeGetArray rawDevice ''triplets'' []))];
                  btle = safeGetObject rawDevice ''btle'' [];
                  safeDevice =
                    assignIf (truthyMember btle ''factoryDefault'' \<or> truthyMember btle ''userConfigured'')
                      ''btle'' (JObject btle) safeDevice;
                  compliance = safeGetObject rawDevice ''compliance'' [];
                  safeDevice =
                    assignIf (length compliance > 0) ''compliance'' (JObject compliance) safeDevice;
                  deviceType = safeGetString rawDevice ''deviceType'' [];
                  safeDevice =
                    assignIf (deviceType \<noteq> []) ''deviceType'' (JString deviceType) safeDevice;
                  jrf = safeGetArray rawDevice ''jrf'' [];
                  safeDevice = assignIf (length jrf > 0) ''jrf'' (JArray jrf) safeDevice;
                  minAdoptVersion = safeGetObject rawDevice ''minAdoptVersion'' [];
                  safeDevice =
                    assignIf (truthyMember minAdoptVersion ''net'') ''minAdoptVersion''
                      (JObject minAdoptVersion) safeDevice;
                  sysid = safeGetString rawDevice ''sysid'' [];
                  safeDevice = assignIf (sysid \<noteq> []) ''sysid'' (JString sysid) safeDevice;
                  unifi = safeGetObject rawDevice ''unifi'' [];
                  safeDevice = assignIf (length unifi > 0) ''unifi'' (JObject unifi) safeDevice;
                  uisp = safeGetObject rawDevice ''uisp'' [];
                  safeDevice = assignIf (length uisp > 0) ''uisp'' (JObject uisp) safeDevice;
                  videos = safeGetObject rawDevice ''videos'' [];
                  safeDevice = assignIf (length videos > 0) ''videos'' (JObject videos) safeDevice;
                  isARSupported = safeGet rawDevice ''isARSupported'';
                  safeDevice =
                    (case isARSupported of
                       Some (JBool b) \<Rightarrow> safeDevice @ [(''isARSupported'', JBool b)]
                     | _ \<Rightarrow> safeDevice)
              in JObject safeDevice))"

record ProcessedResponse =
  pr_devices :: "json list"
  pr_validationErrors :: "string list"
  pr_hasValidationErrors :: bool

text \<open>\<open>${deviceValidation.error}\<close> in the template string.\<close>

definition templateError :: "string option \<Rightarrow> string" where
  "templateError e = (case e of None \<Rightarrow> ''null'' | Some m \<Rightarrow> m)"

text \<open>
  The body of the loop \<open>for (let i = 0; i < rawDevices.length; i++)\<close> at index \<open>i\<close>, on
  the arrays \<open>validDevices\<close> and \<open>validationErrors\<close> built so far.
\<close>

definition validateAt ::
  "(schema \<Rightarrow> json \<Rightarrow> string) \<Rightarrow> nat \<Rightarrow> json \<Rightarrow> json list \<times> string list
     \<Rightarrow> json list \<times> string list" where
  "validateAt zodMessage i rawDevice acc =
     (let validDevices = fst acc;
          errors = snd acc;
          deviceValidation = validateDevice zodMessage rawDevice
      in case (if vr_success deviceValidation then vr_data deviceValidation else None) of
           Some data \<Rightarrow> (validDevices @ [data], errors)
         | None \<Rightarrow>
             (validDevices @ [createSafeDevice zodMessage rawDevice],
              errors @
                [''Device '' @ showNat i @ '': '' @ templateError (vr_error deviceValidation)]))"

text \<open>The loop from index \<open>i\<close> on, over the records that are left.\<close>

fun validateEach ::
  "(schema \<Rightarrow> json \<Rightarrow> string) \<Rightarrow> nat \<Rightarrow> json list \<Rightarrow> json list \<times> string list
     \<Rightarrow> json list \<times> string list" where
  "validateEach zodMessage i [] acc = acc"
| "validateEach zodMessage i (rawDevice # rest) acc =
     validateEach zodMessage (i + 1) rest (validateAt zodMessage i rawDevice acc)"

text \<open>\<open>validation.data.devices\<close> of a parsed response.\<close>

definition devicesOf :: "json \<Rightarrow> json list" where
  "devicesOf data = (case fieldOf data ''devices'' of Some (JArray ds) \<Rightarrow> ds | _ \<Rightarrow> [])"

definition processDeviceResponse :: "(schema \<Rightarrow> json \<Rightarrow> string) \<Rightarrow> json \<Rightarrow> ProcessedResponse" where
  "processDeviceResponse zodMessage rawResponse =
     (let validation = validateDeviceResponse zodMessage rawResponse
      in case (if vr_success validation then vr_data validation else None) of
           Some data \<Rightarrow>
             \<lparr> pr_devices = devicesOf data, pr_validationErrors = [], pr_hasValidationErrors = False \<rparr>
         | None \<Rightarrow>
             (let rawDevices = safeGetArray rawResponse ''devices'' [];
                  (validDevices, errors) = validateEach zodMessage 0 rawDevices ([], [])
              in \<lparr> pr_devices = validDevices, pr_validationErrors = errors,
                   pr_hasValidationErrors = length errors > 0 \<rparr>))"

section \<open>Error messages (utils/errorUtils.ts)\<close>

text \<open>A thrown value: an \<open>Error\<close> with its message, or anything else.\<close>

datatype thrown = ErrorObject string | OtherValue

definition getErrorMessage :: "thrown \<Rightarrow> string" where
  "getErrorMessage e =
     (case e of
        ErrorObject message \<Rightarrow>
          if includesStr message ''timeout'' \<or> includesStr message ''aborted''
          then ''Request timeout - please try again''
          else if includesStr message ''404'' then ''Device data not found''
          else if includesStr message ''500'' \<or> includesStr message ''server error''
          then ''Server error - please try again later''
          else if includesStr message ''network'' \<or> includesStr message ''fetch''
          then ''Network error - please check your connection''
          else message
      | OtherValue \<Rightarrow> ''Failed to fetch devices'')"

section \<open>Device service (services/deviceService.ts, config/api.ts)\<close>

definition CACHE_DURATION :: int where
  "CACHE_DURATION = 5 * 60 * 1000"

record DeviceServiceResult =
  result_data :: "json list option"
  result_loading :: bool
  result_error :: "string option"

record DeviceService =
  cache :: "json list option"
  cacheTimestamp :: "int option"

text \<open>
  What the network does when \<open>fetch(API_CONFIG.BASE_URL)\<close> is called: the promise
  rejects, or a response arrives with a status and a body that \<open>response.json()\<close>
  either parses or rejects.
\<close>

datatype fetchOutcome = Rejects thrown | Responds nat "thrown + json"

text \<open>
  \<open>fetch\<close>, the check of \<open>response.ok\<close> (a status from 200 to 299) and
  \<open>response.json()\<close>: the payload, or what is thrown into the \<open>catch\<close>.
\<close>

definition fetchJson :: "fetchOutcome \<Rightarrow> thrown + json" where
  "fetchJson outcome =
     (case outcome of
        Rejects e \<Rightarrow> Inl e
      | Responds status body \<Rightarrow>
          if \<not> (200 \<le> status \<and> status \<le> 299)
          then Inl (ErrorObject (''HTTP error! status: '' @ showNat status))
          else body)"

text \<open>\<open>now\<close> is the value of \<open>Date.now()\<close>.\<close>

definition isCacheValid :: "DeviceService \<Rightarrow> int \<Rightarrow> bool" where
  "isCacheValid svc now =
     (case (cache svc, cacheTimestamp svc) of
        (Some _, Some t) \<Rightarrow> now - t < CACHE_DURATION
      | _ \<Rightarrow> False)"

text \<open>
  \<open>fetchDevices()\<close> on the service state \<open>svc\<close>: \<open>now\<close> is the clock at the cache check,
  \<open>outcome\<close> what the network does if it is asked, \<open>storeTime\<close> the clock when the result
  is stored. The result comes with the state after the call and the number of requests
  sent.
\<close>

definition fetchDevices ::
  "(schema \<Rightarrow> json \<Rightarrow> string) \<Rightarrow> int \<Rightarrow> fetchOutcome \<Rightarrow> int \<Rightarrow> DeviceService
     \<Rightarrow> DeviceServiceResult \<times> DeviceService \<times> nat" where
  "fetchDevices zodMessage now outcome storeTime svc =
     (if isCacheValid svc now
      then (\<lparr> result_data = cache svc, result_loading = False, result_error = None \<rparr>, svc, 0)
      else
        (case fetchJson outcome of
           Inr rawData \<Rightarrow>
             (let processedResponse = processDeviceResponse zodMessage rawData;
                  svc' = svc\<lparr> cache := Some (pr_devices processedResponse),
                             cacheTimestamp := Some storeTime \<rparr>
              in (\<lparr> result_data = Some (pr_devices processedResponse), result_loading = False,
                    result_error = None \<rparr>, svc', 1))
         | Inl e \<Rightarrow>
             (\<lparr> result_data = None, result_loading = False,
                result_error = Some (getErrorMessage e) \<rparr>, svc, 1)))"

definition clearCache :: "DeviceService \<Rightarrow> DeviceService" where
  "clearCache svc = svc\<lparr> cache := None, cacheTimestamp := None \<rparr>"

definition getCachedDevices :: "DeviceService \<Rightarrow> int \<Rightarrow> json list option" where
  "getCachedDevices svc now = (if isCacheValid svc now then cache svc else None)"

section \<open>Definitions used to state the claims\<close>

text \<open>
  The text the search is claimed to run over: product name, abbreviation, line name, SKU,
  the primary and the secondary identifier, and the short names, joined by spaces and
  lower-cased.
\<close>

definition claimedSearchText :: "Device \<Rightarrow> string" where
  "claimedSearchText d =
     toLowerCase (join '' ''
       ([productName d, productAbbrev d, lineName d, skuOf d, device_id d,
         (case sysid d of None \<Rightarrow> [] | Some s \<Rightarrow> s)] @ shortnamesOf d))"


text \<open>
  The records that contribute a suggestion, in catalog order: a record with a name and a
  match, whose lower-cased name no earlier contributing record has (\<open>names\<close> are the
  names taken so far).
\<close>

fun contributors :: "string \<Rightarrow> string set \<Rightarrow> Device list \<Rightarrow> Device list" where
  "contributors q names [] = []"
| "contributors q names (d # ds) =
     (if productName d \<noteq> [] \<and> bestMatchTypeOf q d \<noteq> None
         \<and> toLowerCase (productName d) \<notin> names
      then d # contributors q (insert (toLowerCase (productName d)) names) ds
      else contributors q names ds)"



text \<open>An entry whose width is at or above the preferred width \<open>p\<close>.\<close>

definition atOrAbove :: "safeInteger \<Rightarrow> safeInteger list \<Rightarrow> bool" where
  "atOrAbove p r = (case nthOpt r 0 of None \<Rightarrow> False | Some w \<Rightarrow> intOf w \<ge> intOf p)"

text \<open>The preferred width of a display context: \<open>ICON_CONTEXT_RESOLUTIONS[context][0]\<close>.\<close>

definition preferredWidth :: "IconContext \<Rightarrow> int" where
  "preferredWidth context = intOf (hd (ICON_CONTEXT_RESOLUTIONS context))"

definition iconDevice :: Device where
  "iconDevice =
     \<lparr> device_id = ''uap'', sku = None, sysid = None, shortnames = None,
       product = None, line = None,
       icon = Some \<lparr> icon_id = ''uap-ac-pro'',
                     icon_resolutions =
                       [[toSafeInteger 32, toSafeInteger 32], [toSafeInteger 64, toSafeInteger 64],
                        [toSafeInteger 256, toSafeInteger 256],
                        [toSafeInteger 129, toSafeInteger 130]] \<rparr>,
       images = None \<rparr>"

definition photoDevice :: Device where
  "photoDevice =
     \<lparr> device_id = ''udm'', sku = None, sysid = None, shortnames = None,
       product = None, line = None,
       icon = Some \<lparr> icon_id = ''udm-icon'',
                     icon_resolutions = [[toSafeInteger 64, toSafeInteger 64]] \<rparr>,
       images = Some \<lparr> images_default = ''abc'', images_nopadding = [],
                       images_topology = [] \<rparr> \<rparr>"

text \<open>A payload whose second record has no \<open>id\<close>, and a service with a snapshot stored at time 0.\<close>

definition partialPayload :: json where
  "partialPayload =
     JObject [(''devices'',
               JArray [JObject [(''id'', JString ''a''),
                                (''product'', JObject [(''name'', JString ''Dream Machine'')]),
                                (''line'', JObject [(''name'', JString ''UniFi'')])],
                       JObject [(''product'', JObject [(''name'', JString ''Switch'')]),
                                (''sysid'', JString ''e610'')]]),
              (''version'', JString ''1'')]"

definition cachedService :: DeviceService where
  "cachedService =
     \<lparr> cache = Some [JObject [(''id'', JString ''a'')]], cacheTimestamp = Some 0 \<rparr>"

definition sampleDevice :: Device where
  "sampleDevice =
     \<lparr> device_id = ''xyz'', sku = Some ''UDM'', sysid = Some ''ea15'',
       shortnames = Some [''UDM''],
       product = Some \<lparr> product_abbrev = ''UDM'', product_name = ''Dream Machine'' \<rparr>,
       line = Some \<lparr> line_id = ''unifi-network'', line_name = ''UniFi'' \<rparr>,
       icon = None, images = None \<rparr>"


subsection \<open>Facts about the string functions\<close>

lemma includesStr_sublist: "includesStr s q = sublist q s"
  by (induction s) (auto simp: sublist_Cons_right)

lemma trim_blank: "list_all isSpace s \<Longrightarrow> trim s = []"
  by (auto simp: trim_def list_all_iff dest: set_dropWhileD)

text \<open>
  The no-break space U+00A0 is white space for \<open>trim\<close> and for \<open>\s\<close>; the capitals of
  Latin-1 have lower-case forms, the multiplication sign U+00D7 and the sharp s have none.
\<close>

lemma latin1_examples:
  "trim (CHR 0xA0 # ''a'' @ [CHR 0x09, CHR 0xA0]) = ''a''"
  "toLowerCase [CHR 0xC9, CHR 0xD7, CHR 0xDE, CHR 0xDF, CHR ''Z'']
     = [CHR 0xE9, CHR 0xD7, CHR 0xFE, CHR 0xDF, CHR ''z'']"
  "normalizeWhitespace [CHR 0xA0, CHR 0xA0, CHR ''a''] = '' a''"
  "sanitizeSearchQuery (\<lambda>s. s) [CHR 0xA0] = []"
  by code_simp+

subsection \<open>Claim C1\<close>

text \<open>
  C1, as stated, has both identifiers in the searched text. The sample device has the
  primary identifier \<open>xyz\<close> and a secondary identifier; the query \<open>xyz\<close> is a substring of
  the claimed text, but \<open>matchesSearchQuery\<close> returns false.
\<close>

theorem C1_both_identifiers_counterexample:
  "\<not> (matchesSearchQuery sampleDevice ''xyz'' \<longleftrightarrow>
        (toLowerCase (trim ''xyz'') = [] \<or>
         sublist (toLowerCase (trim ''xyz'')) (claimedSearchText sampleDevice)))"
  by code_simp

text \<open>
  C1 (amended): \<open>matchesSearchQuery device query\<close> is true if and only if the trimmed,
  lower-cased query is empty or is a substring of the lower-cased, space-joined product
  name, abbreviation, line name, SKU, one identifier (the secondary identifier \<open>sysid\<close>
  when it is present and non-empty, otherwise the primary identifier \<open>id\<close>) and all short
  names; and \<open>filterDevices\<close> with an empty or whitespace-only query returns all records
  in the same order.
\<close>

theorem C1_matchesSearchQuery_iff:
  "(matchesSearchQuery d query \<longleftrightarrow>
      (toLowerCase (trim query) = [] \<or>
       sublist (toLowerCase (trim query))
         (toLowerCase (join '' ''
            ([productName d, productAbbrev d, lineName d, skuOf d,
              (case sysid d of Some s \<Rightarrow> (if s \<noteq> [] then s else device_id d)
                             | None \<Rightarrow> device_id d)] @ shortnamesOf d)))))
   \<and> (list_all isSpace query \<longrightarrow> filterDevices ds query = ds)"
proof -
  have ident: "identifierOf d =
      (case sysid d of Some s \<Rightarrow> (if s \<noteq> [] then s else device_id d) | None \<Rightarrow> device_id d)"
    by (simp add: identifierOf_def orElse_def split: option.splits)
  have m: "matchesSearchQuery d query \<longleftrightarrow>
      (toLowerCase (trim query) = [] \<or>
       sublist (toLowerCase (trim query)) (searchableFields d))"
    by (simp add: matchesSearchQuery_def Let_def includesStr_sublist)
  have f: "filterDevices ds query = ds" if "list_all isSpace query"
  proof -
    from that have "toLowerCase (trim query) = []"
      by (simp add: trim_blank toLowerCase_def)
    then have "\<And>x. matchesSearchQuery x query"
      by (simp add: matchesSearchQuery_def)
    then show ?thesis
      by (simp add: filterDevices_def)
  qed
  show ?thesis
    using m f by (simp add: searchableFields_def ident)
qed

theorem C1_matchesSearchQuery_iff_witness:
  "matchesSearchQuery sampleDevice ''  dream '' \<and> \<not> matchesSearchQuery sampleDevice ''xyz''
   \<and> list_all isSpace '' '' \<and> filterDevices [sampleDevice, sampleDevice] '' '' = [sampleDevice, sampleDevice]"
proof -
  have sp: "list_all isSpace '' ''" by (simp add: isSpace_def)
  have a: "matchesSearchQuery sampleDevice ''  dream ''" by code_simp
  have b: "\<not> matchesSearchQuery sampleDevice ''xyz''" by code_simp
  from C1_matchesSearchQuery_iff [of sampleDevice "'' ''" "[sampleDevice, sampleDevice]"] sp
  have "filterDevices [sampleDevice, sampleDevice] '' '' = [sampleDevice, sampleDevice]"
    by blast
  with sp a b show ?thesis by blast
qed

subsection \<open>Facts about splitting, joining and the URL parameters\<close>


lemma splitOn_nonempty: "splitOn sep s \<noteq> []"
  by (induction s) (auto split: list.splits)

lemma splitOn_no_sep: "sep \<notin> set s \<Longrightarrow> splitOn sep s = [s]"
  by (induction s) auto

lemma splitOn_append: "splitOn sep (a @ sep # b) = splitOn sep a @ splitOn sep b"
proof (induction a)
  case Nil
  show ?case by simp
next
  case (Cons c a)
  show ?case
  proof (cases "c = sep")
    case True
    with Cons show ?thesis by simp
  next
    case False
    obtain x xs where x: "splitOn sep a = x # xs"
      using splitOn_nonempty [of sep a] by (cases "splitOn sep a") auto
    with False Cons show ?thesis by simp
  qed
qed

lemma splitOn_join_Cons:
  "splitOn sep (join [sep] (x # xs)) = concat (map (splitOn sep) (x # xs))"
proof (induction xs arbitrary: x)
  case Nil
  show ?case by simp
next
  case (Cons y ys)
  have "splitOn sep (join [sep] (x # y # ys)) = splitOn sep (x @ sep # join [sep] (y # ys))"
    by simp
  also have "\<dots> = splitOn sep x @ splitOn sep (join [sep] (y # ys))"
    by (rule splitOn_append)
  also have "\<dots> = concat (map (splitOn sep) (x # y # ys))"
    using Cons [of y] by simp
  finally show ?case .
qed

lemma splitOn_join:
  "xs \<noteq> [] \<Longrightarrow> splitOn sep (join [sep] xs) = concat (map (splitOn sep) xs)"
  by (cases xs) (simp_all only: splitOn_join_Cons list.simps)

lemma getQuery_buildUrlParams: "getQuery (buildUrlParams q cats) = trim q"
  by (simp add: getQuery_def buildUrlParams_def orElse_def Let_def)

lemma getProductLineFilter_buildUrlParams:
  "getProductLineFilter (buildUrlParams q cats) =
     filter (\<lambda>t. t \<noteq> []) (concat (map (splitOn CHR '','') cats))"
proof (cases "cats = []")
  case True
  then show ?thesis
    by (simp add: getProductLineFilter_def buildUrlParams_def Let_def)
next
  case False
  then show ?thesis
    using splitOn_join [of cats "CHR '',''"]
    by (simp add: getProductLineFilter_def buildUrlParams_def Let_def)
qed

lemma split_clean:
  "\<forall>c\<in>set cats. c \<noteq> [] \<and> sep \<notin> set c \<Longrightarrow>
     filter (\<lambda>t. t \<noteq> []) (concat (map (splitOn sep) cats)) = cats"
  by (induction cats) (auto simp: splitOn_no_sep)

lemma empty_not_in_filter: "[] \<notin> set (getProductLineFilter params)"
  by (simp add: getProductLineFilter_def split: option.splits)

subsection \<open>Facts about the removal of SQL words\<close>









subsection \<open>Claim C2\<close>

text \<open>
  C2, as stated, fails: serialising trims the query, and a category name with a comma
  is split into two names when the parameter is read back.
\<close>

theorem C2_roundtrip_counterexample:
  "\<not> (getQuery (buildUrlParams '' a'' [''x,y'']) = '' a'' \<and>
       set (getProductLineFilter (buildUrlParams '' a'' [''x,y''])) = set [''x,y''])"
  by code_simp

text \<open>
  C2 (amended): deserialising the serialised state yields the trimmed query, and the
  category names cut at their commas with the empty pieces dropped. So the query comes
  back when it has no leading or trailing white space, and the category set comes back
  when no category name is empty or contains a comma.
\<close>

theorem C2_roundtrip:
  "getQuery (buildUrlParams query categories) = trim query
   \<and> getProductLineFilter (buildUrlParams query categories) =
       filter (\<lambda>t. t \<noteq> []) (concat (map (splitOn CHR '','') categories))
   \<and> ((\<forall>c\<in>set categories. c \<noteq> [] \<and> CHR '','' \<notin> set c) \<longrightarrow>
        set (getProductLineFilter (buildUrlParams query categories)) = set categories)
   \<and> (trim query = query \<longrightarrow> getQuery (buildUrlParams query categories) = query)"
  using split_clean [of categories "CHR '',''"]
  by (simp add: getQuery_buildUrlParams getProductLineFilter_buildUrlParams)

theorem C2_roundtrip_witness:
  "list_all (\<lambda>c. c \<noteq> [] \<and> CHR '','' \<notin> set c) [''UniFi'', ''airMAX'']
   \<and> trim ''dream machine'' = ''dream machine''
   \<and> getQuery (buildUrlParams ''dream machine'' [''UniFi'', ''airMAX'']) = ''dream machine''
   \<and> set (getProductLineFilter (buildUrlParams ''dream machine'' [''UniFi'', ''airMAX'']))
       = set [''UniFi'', ''airMAX'']"
proof -
  have h1: "\<forall>c\<in>set [''UniFi'', ''airMAX'']. c \<noteq> [] \<and> CHR '','' \<notin> set c"
    by simp
  have h2: "trim ''dream machine'' = ''dream machine''"
    by code_simp
  from C2_roundtrip [of "''dream machine''" "[''UniFi'', ''airMAX'']"] h1 h2
  have "getQuery (buildUrlParams ''dream machine'' [''UniFi'', ''airMAX'']) = ''dream machine''
    \<and> set (getProductLineFilter (buildUrlParams ''dream machine'' [''UniFi'', ''airMAX'']))
       = set [''UniFi'', ''airMAX'']"
    by blast
  with h1 h2 show ?thesis
    by (simp add: list_all_iff)
qed

subsection \<open>Claim C8\<close>

text \<open>
  C8: the composed filter is the search stage followed by the category stage. With no
  selected category every search-filtered record passes; otherwise a record passes if and
  only if it has a line whose name is an element of the selected categories (equality of
  strings, no substring test).
\<close>

theorem C8_filter_composition:
  "fullyFilteredDevices purify devices searchParams =
     (let searchFiltered =
            useDeviceSearch purify (case devices of None \<Rightarrow> [] | Some ds \<Rightarrow> ds)
              (getQuery searchParams);
          selected = getProductLineFilter searchParams
      in if selected = [] then searchFiltered
         else filter (\<lambda>d. case line d of None \<Rightarrow> False
                                   | Some l \<Rightarrow> line_name l \<in> set selected) searchFiltered)"
proof -
  have "productLineFilterFn (getProductLineFilter searchParams) =
      (\<lambda>d. case line d of None \<Rightarrow> False
       | Some l \<Rightarrow> line_name l \<in> set (getProductLineFilter searchParams))"
    using empty_not_in_filter [of searchParams]
    by (auto simp: productLineFilterFn_def fun_eq_iff split: option.splits)
  then show ?thesis
    by (simp add: fullyFilteredDevices_def Let_def)
qed

theorem C8_filter_composition_witness:
  "fullyFilteredDevices (\<lambda>s. s) (Some [sampleDevice]) [''q'' \<mapsto> ''dream''] = [sampleDevice]
   \<and> fullyFilteredDevices (\<lambda>s. s) (Some [sampleDevice])
         [''q'' \<mapsto> ''dream'', ''lines'' \<mapsto> ''airMAX''] = []
   \<and> fullyFilteredDevices (\<lambda>s. s) (Some [sampleDevice])
         [''q'' \<mapsto> ''dream'', ''lines'' \<mapsto> ''Uni,UniFi''] = [sampleDevice]"
proof -
  have s: "useDeviceSearch (\<lambda>s. s) [sampleDevice] ''dream'' = [sampleDevice]"
    by code_simp
  have l: "line sampleDevice = Some \<lparr> line_id = ''unifi-network'', line_name = ''UniFi'' \<rparr>"
    by (simp add: sampleDevice_def)
  have a: "fullyFilteredDevices (\<lambda>s. s) (Some [sampleDevice]) [''q'' \<mapsto> ''dream'']
      = [sampleDevice]"
    using C8_filter_composition [of "\<lambda>s. s" "Some [sampleDevice]" "[''q'' \<mapsto> ''dream'']"] s
    by (simp add: getQuery_def getProductLineFilter_def orElse_def)
  have b: "fullyFilteredDevices (\<lambda>s. s) (Some [sampleDevice])
      [''q'' \<mapsto> ''dream'', ''lines'' \<mapsto> ''airMAX''] = []"
    using C8_filter_composition [of "\<lambda>s. s" "Some [sampleDevice]"
        "[''q'' \<mapsto> ''dream'', ''lines'' \<mapsto> ''airMAX'']"] s l
    by (simp add: getQuery_def getProductLineFilter_def orElse_def)
  have c: "fullyFilteredDevices (\<lambda>s. s) (Some [sampleDevice])
      [''q'' \<mapsto> ''dream'', ''lines'' \<mapsto> ''Uni,UniFi''] = [sampleDevice]"
    using C8_filter_composition [of "\<lambda>s. s" "Some [sampleDevice]"
        "[''q'' \<mapsto> ''dream'', ''lines'' \<mapsto> ''Uni,UniFi'']"] s l
    by (simp add: getQuery_def getProductLineFilter_def orElse_def)
  from a b c show ?thesis by blast
qed

subsection \<open>Claim C10\<close>



subsection \<open>Facts about the suggestion loop\<close>








lemma contributors_member:
  "d \<in> set (contributors q names ds) \<Longrightarrow>
     d \<in> set ds \<and> productName d \<noteq> [] \<and> bestMatchTypeOf q d \<noteq> None"
  by (induction ds arbitrary: names) (auto split: if_splits)








subsection \<open>Claim C6\<close>



subsection \<open>Claim C7\<close>



subsection \<open>Facts about the choice of a resolution\<close>

lemma intOf_toSafeInteger:
  "- 9007199254740991 \<le> n \<Longrightarrow> n \<le> 9007199254740991 \<Longrightarrow> intOf (toSafeInteger n) = n"
  by (simp add: toSafeInteger_inverse)

lemma intOf_range: "- 9007199254740991 \<le> intOf a \<and> intOf a \<le> 9007199254740991"
  using intOf [of a] by simp

lemma preferredWidth_values:
  "preferredWidth Small = 128 \<and> preferredWidth Medium = 64 \<and> preferredWidth Large = 128"
  by (simp add: preferredWidth_def ICON_CONTEXT_RESOLUTIONS_def intOf_toSafeInteger)

lemma preferredWidth_nonneg: "0 \<le> preferredWidth context"
  using preferredWidth_values by (cases "context") simp_all

lemma roundToDouble_exact: "\<bar>d\<bar> \<le> 9007199254740992 \<Longrightarrow> roundToDouble d = d"
  by (simp add: roundToDouble_def)

lemma distanceOf_atOrAbove:
  assumes "0 \<le> intOf p" "nthOpt r 0 = Some w" "intOf p \<le> intOf w"
  shows "distanceOf p r = Some (intOf w - intOf p)"
proof -
  have "intOf w - intOf p \<le> 9007199254740992"
    using intOf_range [of w] assms(1) by simp
  then have "roundToDouble (intOf w - intOf p) = intOf w - intOf p"
    using assms(3) by (simp add: roundToDouble_exact)
  then show ?thesis
    using assms(2,3) by (simp add: distanceOf_def)
qed

lemma closer_atOrAbove:
  assumes "0 \<le> intOf p" "nthOpt a 0 = Some wa" "intOf p \<le> intOf wa"
    and "nthOpt x 0 = Some wx" "intOf p \<le> intOf wx"
  shows "closer p a x = (if intOf wx < intOf wa then x else a)"
  using distanceOf_atOrAbove [OF assms(1,2,3)] distanceOf_atOrAbove [OF assms(1,4,5)]
  by (simp add: closer_def lessThan_def)

lemma closer_fold:
  assumes "0 \<le> intOf p"
  shows "atOrAbove p a \<Longrightarrow> \<forall>x\<in>set xs. atOrAbove p x \<Longrightarrow>
     foldl (closer p) a xs \<in> set (a # xs)
     \<and> (\<exists>w. nthOpt (foldl (closer p) a xs) 0 = Some w
          \<and> (\<forall>x\<in>set (a # xs). \<forall>wx. nthOpt x 0 = Some wx \<longrightarrow> intOf w \<le> intOf wx))"
proof (induction xs arbitrary: a)
  case Nil
  then show ?case
    by (auto simp: atOrAbove_def split: option.splits)
next
  case (Cons x xs)
  from Cons.prems obtain wa wx where
    a: "nthOpt a 0 = Some wa" "intOf p \<le> intOf wa" and
    x: "nthOpt x 0 = Some wx" "intOf p \<le> intOf wx"
    by (auto simp: atOrAbove_def split: option.splits)
  have c: "closer p a x = (if intOf wx < intOf wa then x else a)"
    using assms a x by (rule closer_atOrAbove)
  then have "atOrAbove p (closer p a x)"
    using Cons.prems by simp
  from Cons.IH [OF this] Cons.prems(2)
  obtain w where w: "foldl (closer p) (closer p a x) xs \<in> set (closer p a x # xs)"
      "nthOpt (foldl (closer p) (closer p a x) xs) 0 = Some w"
      "\<forall>y\<in>set (closer p a x # xs). \<forall>wy. nthOpt y 0 = Some wy \<longrightarrow> intOf w \<le> intOf wy"
    by auto
  have mem: "foldl (closer p) a (x # xs) \<in> set (a # x # xs)"
    using w(1) c by (auto split: if_splits)
  have "intOf w \<le> intOf wa \<and> intOf w \<le> intOf wx"
  proof (cases "intOf wx < intOf wa")
    case True
    with c w(3) x(1) show ?thesis by auto
  next
    case False
    with c w(3) a(1) show ?thesis by auto
  qed
  then have "\<forall>y\<in>set (a # x # xs). \<forall>wy. nthOpt y 0 = Some wy \<longrightarrow> intOf w \<le> intOf wy"
    using w(3) a(1) x(1) by auto
  with mem w(2) show ?case by auto
qed


lemma atOrAbove_fun:
  "(\<lambda>r. case nthOpt r 0 of None \<Rightarrow> False | Some w \<Rightarrow> intOf w \<ge> intOf p) = atOrAbove p"
  by (rule ext) (simp add: atOrAbove_def)

lemma selectResolution_cases:
  "selectResolution rs ctx =
     (let p = hd (ICON_CONTEXT_RESOLUTIONS ctx)
      in case find (\<lambda>r. nthOpt r 0 = Some p) rs of
           Some exactMatch \<Rightarrow> exactMatch
         | None \<Rightarrow>
             if filter (atOrAbove p) rs \<noteq> []
             then foldl (closer p) (hd (filter (atOrAbove p) rs)) (tl (filter (atOrAbove p) rs))
             else (case rs of [] \<Rightarrow> [toSafeInteger 32, toSafeInteger 32] | _ \<Rightarrow> last rs))"
  unfolding selectResolution_def Let_def atOrAbove_fun
  by (simp split: option.splits)

lemma reduce_largerSizes:
  assumes "filter (atOrAbove p) rs \<noteq> []" "0 \<le> intOf p"
  defines "s \<equiv> foldl (closer p) (hd (filter (atOrAbove p) rs)) (tl (filter (atOrAbove p) rs))"
  shows "s \<in> set rs \<and> atOrAbove p s
    \<and> (\<exists>w. nthOpt s 0 = Some w
          \<and> (\<forall>x\<in>set rs. \<forall>wx. nthOpt x 0 = Some wx \<and> intOf p \<le> intOf wx \<longrightarrow> intOf w \<le> intOf wx))"
proof -
  let ?L = "filter (atOrAbove p) rs"
  have L: "hd ?L # tl ?L = ?L"
    using assms(1) by simp
  have all: "\<forall>x\<in>set ?L. atOrAbove p x"
    by simp
  then have a: "atOrAbove p (hd ?L)" and t: "\<forall>x\<in>set (tl ?L). atOrAbove p x"
    using L by (metis list.set_intros(1), metis list.set_intros(2))
  from closer_fold [OF assms(2) a t]
  obtain w where w: "s \<in> set ?L" "nthOpt s 0 = Some w"
      "\<forall>x\<in>set ?L. \<forall>wx. nthOpt x 0 = Some wx \<longrightarrow> intOf w \<le> intOf wx"
    unfolding s_def L by auto
  have "intOf w \<le> intOf wx"
    if "x \<in> set rs" "nthOpt x 0 = Some wx" "intOf p \<le> intOf wx" for x wx
  proof -
    from that have "x \<in> set ?L"
      by (simp add: atOrAbove_def)
    with w(3) that(2) show ?thesis by blast
  qed
  with w(1,2) show ?thesis by auto
qed

lemma selectResolution_member:
  "rs \<noteq> [] \<Longrightarrow> selectResolution rs ctx \<in> set rs"
proof -
  assume ne: "rs \<noteq> []"
  let ?p = "hd (ICON_CONTEXT_RESOLUTIONS ctx)"
  have p0: "0 \<le> intOf ?p"
    using preferredWidth_nonneg [of ctx] by (simp add: preferredWidth_def)
  show ?thesis
  proof (cases "find (\<lambda>r. nthOpt r 0 = Some ?p) rs")
    case (Some r)
    then have "r \<in> set rs"
      by (auto simp: find_Some_iff)
    with Some show ?thesis
      by (simp add: selectResolution_cases)
  next
    case None
    show ?thesis
    proof (cases "filter (atOrAbove ?p) rs = []")
      case True
      with None ne show ?thesis
        by (cases rs) (simp_all add: selectResolution_cases Let_def)
    next
      case False
      from reduce_largerSizes [OF False p0] None False show ?thesis
        by (simp add: selectResolution_cases Let_def)
    qed
  qed
qed

lemma selectResolution_nearest:
  assumes "r' \<in> set rs" "nthOpt r' 0 = Some w'" "preferredWidth ctx \<le> intOf w'"
  shows "\<exists>w. nthOpt (selectResolution rs ctx) 0 = Some w
             \<and> preferredWidth ctx \<le> intOf w \<and> intOf w \<le> intOf w'"
proof -
  let ?p = "hd (ICON_CONTEXT_RESOLUTIONS ctx)"
  have p: "preferredWidth ctx = intOf ?p"
    by (simp add: preferredWidth_def)
  have p0: "0 \<le> intOf ?p"
    using preferredWidth_nonneg [of ctx] by (simp add: p)
  show ?thesis
  proof (cases "find (\<lambda>r. nthOpt r 0 = Some ?p) rs")
    case (Some r)
    then have "nthOpt r 0 = Some ?p"
      by (auto simp: find_Some_iff)
    with Some assms(3) show ?thesis
      by (simp add: selectResolution_cases p)
  next
    case None
    have "r' \<in> set (filter (atOrAbove ?p) rs)"
      using assms by (simp add: atOrAbove_def p)
    then have ne: "filter (atOrAbove ?p) rs \<noteq> []"
      by (metis empty_iff empty_set)
    let ?s = "foldl (closer ?p) (hd (filter (atOrAbove ?p) rs)) (tl (filter (atOrAbove ?p) rs))"
    have sel: "selectResolution rs ctx = ?s"
      using None ne by (simp add: selectResolution_cases Let_def)
    from reduce_largerSizes [OF ne p0]
    obtain w where w: "atOrAbove ?p ?s" "nthOpt ?s 0 = Some w"
        "\<forall>x\<in>set rs. \<forall>wx. nthOpt x 0 = Some wx \<and> intOf ?p \<le> intOf wx \<longrightarrow> intOf w \<le> intOf wx"
      by auto
    from w(3) assms have "intOf w \<le> intOf w'"
      unfolding p by blast
    moreover have "intOf ?p \<le> intOf w"
      using w(1,2) by (simp add: atOrAbove_def)
    ultimately show ?thesis
      using w(2) sel by (simp add: p)
  qed
qed

lemma selectResolution_fallback:
  assumes "rs \<noteq> []"
    and "\<not> list_ex (\<lambda>r. case nthOpt r 0 of None \<Rightarrow> False
                         | Some w \<Rightarrow> preferredWidth ctx \<le> intOf w) rs"
  shows "selectResolution rs ctx = last rs"
proof -
  let ?p = "hd (ICON_CONTEXT_RESOLUTIONS ctx)"
  have no: "\<not> atOrAbove ?p r" if "r \<in> set rs" for r
    using assms(2) that unfolding preferredWidth_def list_ex_iff atOrAbove_def by blast
  then have a: "filter (atOrAbove ?p) rs = []"
    by (simp add: filter_empty_conv)
  have "nthOpt r 0 \<noteq> Some ?p" if "r \<in> set rs" for r
    using no [OF that] by (auto simp: atOrAbove_def)
  then have "find (\<lambda>r. nthOpt r 0 = Some ?p) rs = None"
    by (simp add: find_None_iff)
  with a assms(1) show ?thesis
    by (cases rs) (simp_all add: selectResolution_cases Let_def)
qed

lemma show_examples:
  "showNat 64 = ''64''" "showNat 129 = ''129''" "showNat 130 = ''130''"
  by code_simp+

text \<open>Two widths near \<open>2^53\<close> whose distances from 64 are different doubles.\<close>

lemma closer_large:
  "closer (toSafeInteger 64) [toSafeInteger 9007199254740991] [toSafeInteger 9007199254740990]
     = [toSafeInteger 9007199254740990]"
  by (simp add: closer_def distanceOf_def lessThan_def roundToDouble_def nthOpt_def
        intOf_toSafeInteger)

subsection \<open>Claim C9\<close>

text \<open>
  C9, as stated, fails: the small and the large context have the same preferred width,
  128. And a device that has a product image gets the image URL, whatever its icon data.
\<close>

theorem C9_preferred_widths_counterexample:
  "\<not> distinct (map preferredWidth [Small, Medium, Large])
   \<and> preferredWidth Small = preferredWidth Large
   \<and> fst (getIconUrl Map.empty photoDevice Medium) =
       ''https://images.svc.ui.com/?u=https://static.ui.com/fingerprint/ui/images/udm/default/abc.png&w=64&q=100&fmt=png''"
proof -
  have "fst (getIconUrl Map.empty photoDevice Medium) =
       ''https://images.svc.ui.com/?u=https://static.ui.com/fingerprint/ui/images/udm/default/abc.png&w=64&q=100&fmt=png''"
    by (simp add: getIconUrl_def photoDevice_def imagesDefaultOf_def Let_def
          ICON_CONTEXT_RESOLUTIONS_def showSafeInteger_def intOf_toSafeInteger show_examples)
  then show ?thesis
    using preferredWidth_values by simp
qed

text \<open>
  C9 (amended): for a device with a non-empty resolution list and no product image, whose
  URL for the context is not in the URL cache yet, the generated icon URL embeds the first
  two members of the entry that \<open>selectResolution\<close> picks from the list. When some entry
  has a width at or above the context's preferred width, the picked entry has the least
  such width; when none has, it is the last entry of the list. The preferred widths are
  128 for small, 64 for medium and 128 for large. The numbers of the list are safe
  integers.
\<close>

theorem C9_icon_url:
  assumes "urlCache (getCacheKey (device_id device) context) = None"
    and "imagesDefaultOf device = []"
    and "icon device = Some ic"
    and "icon_resolutions ic \<noteq> []"
    and "r = selectResolution (icon_resolutions ic) context"
  shows "fst (getIconUrl urlCache device context) =
           ''https://static.ui.com/fingerprint/ui/icons/'' @ icon_id ic @ ''_''
           @ templateNumber (nthOpt r 0) @ ''x'' @ templateNumber (nthOpt r 1) @ ''.png''
    \<and> r \<in> set (icon_resolutions ic)
    \<and> (\<forall>r'\<in>set (icon_resolutions ic). \<forall>w'.
          nthOpt r' 0 = Some w' \<and> preferredWidth context \<le> intOf w' \<longrightarrow>
          (\<exists>w. nthOpt r 0 = Some w \<and> preferredWidth context \<le> intOf w \<and> intOf w \<le> intOf w'))
    \<and> (\<not> list_ex (\<lambda>r'. case nthOpt r' 0 of None \<Rightarrow> False
                                | Some w' \<Rightarrow> preferredWidth context \<le> intOf w')
            (icon_resolutions ic) \<longrightarrow>
        r = last (icon_resolutions ic))
    \<and> preferredWidth Small = 128 \<and> preferredWidth Medium = 64 \<and> preferredWidth Large = 128"
proof -
  have url: "fst (getIconUrl urlCache device context) =
           ''https://static.ui.com/fingerprint/ui/icons/'' @ icon_id ic @ ''_''
           @ templateNumber (nthOpt r 0) @ ''x'' @ templateNumber (nthOpt r 1) @ ''.png''"
    using assms
    by (simp add: getIconUrl_def Let_def resolutionsOf_def iconIdOf_def)
  have mem: "r \<in> set (icon_resolutions ic)"
    unfolding assms(5) using assms(4) by (rule selectResolution_member)
  have near: "\<exists>w. nthOpt r 0 = Some w \<and> preferredWidth context \<le> intOf w \<and> intOf w \<le> intOf w'"
    if "r' \<in> set (icon_resolutions ic)" "nthOpt r' 0 = Some w'"
       "preferredWidth context \<le> intOf w'"
    for r' w'
    unfolding assms(5) using that by (rule selectResolution_nearest)
  have fallback: "r = last (icon_resolutions ic)"
    if "\<not> list_ex (\<lambda>r'. case nthOpt r' 0 of None \<Rightarrow> False
                                | Some w' \<Rightarrow> preferredWidth context \<le> intOf w')
            (icon_resolutions ic)"
    unfolding assms(5) using assms(4) that by (rule selectResolution_fallback)
  show ?thesis
    using url mem near fallback preferredWidth_values by blast
qed

theorem C9_icon_url_witness:
  "Map.empty (getCacheKey (device_id iconDevice) Small) = (None :: string option)
   \<and> imagesDefaultOf iconDevice = []
   \<and> icon iconDevice = Some \<lparr> icon_id = ''uap-ac-pro'',
          icon_resolutions =
            [[toSafeInteger 32, toSafeInteger 32], [toSafeInteger 64, toSafeInteger 64],
             [toSafeInteger 256, toSafeInteger 256], [toSafeInteger 129, toSafeInteger 130]] \<rparr>
   \<and> selectResolution
         [[toSafeInteger 32, toSafeInteger 32], [toSafeInteger 64, toSafeInteger 64],
          [toSafeInteger 256, toSafeInteger 256], [toSafeInteger 129, toSafeInteger 130]] Small
       = [toSafeInteger 129, toSafeInteger 130]
   \<and> fst (getIconUrl Map.empty iconDevice Small) =
       ''https://static.ui.com/fingerprint/ui/icons/uap-ac-pro_129x130.png''"
proof -
  let ?rs = "[[toSafeInteger 32, toSafeInteger 32], [toSafeInteger 64, toSafeInteger 64],
             [toSafeInteger 256, toSafeInteger 256], [toSafeInteger 129, toSafeInteger 130]]"
  let ?ic = "\<lparr> icon_id = ''uap-ac-pro'', icon_resolutions = ?rs \<rparr>"
  have h1: "Map.empty (getCacheKey (device_id iconDevice) Small) = (None :: string option)"
    by simp
  have h2: "imagesDefaultOf iconDevice = []"
    by (simp add: imagesDefaultOf_def iconDevice_def)
  have h3: "icon iconDevice = Some ?ic"
    by (simp add: iconDevice_def)
  have h4: "icon_resolutions ?ic \<noteq> []"
    by simp
  have ne: "toSafeInteger 32 \<noteq> toSafeInteger 128" "toSafeInteger 64 \<noteq> toSafeInteger 128"
      "toSafeInteger 256 \<noteq> toSafeInteger 128" "toSafeInteger 129 \<noteq> toSafeInteger 128"
    by (simp_all add: toSafeInteger_inject)
  have h5: "selectResolution ?rs Small = [toSafeInteger 129, toSafeInteger 130]"
    by (simp add: selectResolution_def Let_def ICON_CONTEXT_RESOLUTIONS_def nthOpt_def ne
          intOf_toSafeInteger closer_def distanceOf_def lessThan_def roundToDouble_def)
  then have h5': "[toSafeInteger 129, toSafeInteger 130] = selectResolution (icon_resolutions ?ic) Small"
    by simp
  have t: "templateNumber (nthOpt [toSafeInteger 129, toSafeInteger 130] 0) = ''129''"
          "templateNumber (nthOpt [toSafeInteger 129, toSafeInteger 130] 1) = ''130''"
    by (simp_all add: templateNumber_def nthOpt_def showSafeInteger_def intOf_toSafeInteger
          show_examples)
  from C9_icon_url [OF h1 h2 h3 h4 h5']
  have u: "fst (getIconUrl Map.empty iconDevice Small) =
           ''https://static.ui.com/fingerprint/ui/icons/'' @ icon_id ?ic @ ''_''
           @ templateNumber (nthOpt [toSafeInteger 129, toSafeInteger 130] 0) @ ''x''
           @ templateNumber (nthOpt [toSafeInteger 129, toSafeInteger 130] 1) @ ''.png''"
    by blast
  have "fst (getIconUrl Map.empty iconDevice Small) =
       ''https://static.ui.com/fingerprint/ui/icons/uap-ac-pro_129x130.png''"
    unfolding u t by simp
  with h1 h2 h3 h5 show ?thesis by blast
qed

subsection \<open>Facts about the validator\<close>

lemma those_None: "None \<in> set xs \<Longrightarrow> those xs = None"
  by (induction xs) (auto split: option.splits)

lemma parseShape_missing:
  "(key, Required, s) \<in> set shape \<Longrightarrow> map_of members key = None \<Longrightarrow>
     parseShape shape members = None"
proof (induction shape)
  case Nil
  then show ?case by simp
next
  case (Cons a shape)
  obtain k p s' where a: "a = (k, p, s')" by (cases a)
  show ?case
  proof (cases "a = (key, Required, s)")
    case True
    with Cons.prems(2) a show ?thesis by simp
  next
    case False
    with Cons have "parseShape shape members = None" by simp
    then show ?thesis
      unfolding a by (simp split: option.splits)
  qed
qed

lemma DeviceShape_id: "(''id'', Required, ZString) \<in> set DeviceShape"
  by (simp add: DeviceShape_def)

lemma parse_missing_id: "fieldOf r ''id'' = None \<Longrightarrow> parse DeviceSchema r = None"
  using parseShape_missing [OF DeviceShape_id]
  by (cases r) (simp_all add: DeviceSchema_def fieldOf_def)

lemma validateDevice_missing_id:
  assumes "fieldOf r ''id'' = None"
  shows "validateDevice zm r =
     \<lparr> vr_success = False, vr_data = None,
       vr_error = Some (''Device schema validation failed: '' @ zm DeviceSchema r),
       vr_originalData = r \<rparr>"
  using parse_missing_id [OF assms] by (simp add: validateDevice_def)

lemma splitOn_id: "splitOn CHR ''.'' ''id'' = [''id'']"
  by simp

lemma splitOn_devices: "splitOn CHR ''.'' ''devices'' = [''devices'']"
  by simp

lemma safeGetString_missing_id:
  "fieldOf r ''id'' = None \<Longrightarrow> safeGetString r ''id'' fallback = fallback"
  by (simp add: safeGetString_def safeGet_def splitOn_id del: splitOn.simps)

lemma map_of_assignIf:
  "map_of members k = Some v \<Longrightarrow> map_of (assignIf c key x members) k = Some v"
  by (simp add: assignIf_def)

lemma createSafeDevice_missing_id:
  assumes "fieldOf r ''id'' = None"
  shows "fieldOf (createSafeDevice zm r) ''id'' = Some (JString ''unknown-device'')"
proof -
  have v: "vr_success (validateDevice zm r) = False"
    using validateDevice_missing_id [OF assms] by simp
  show ?thesis
    unfolding createSafeDevice_def Let_def
    by (simp add: v fieldOf_def map_of_assignIf safeGetString_missing_id [OF assms]
          split: option.splits json.splits)
qed

lemma validateDevice_cases:
  "validateDevice zm r =
     (case parse DeviceSchema r of
        Some d \<Rightarrow> \<lparr> vr_success = True, vr_data = Some d, vr_error = None, vr_originalData = r \<rparr>
      | None \<Rightarrow> \<lparr> vr_success = False, vr_data = None,
            vr_error = Some (''Device schema validation failed: '' @ zm DeviceSchema r),
            vr_originalData = r \<rparr>)"
  by (simp add: validateDevice_def)

lemma validateAt_Some:
  "parse DeviceSchema r = Some d \<Longrightarrow> validateAt zm i r acc = (fst acc @ [d], snd acc)"
  by (simp add: validateAt_def validateDevice_cases)

lemma validateAt_None:
  "parse DeviceSchema r = None \<Longrightarrow>
     validateAt zm i r acc =
       (fst acc @ [createSafeDevice zm r],
        snd acc @ [''Device '' @ showNat i @ '': Device schema validation failed: ''
                    @ zm DeviceSchema r])"
  by (simp add: validateAt_def validateDevice_cases templateError_def)

lemma validateAt_fst:
  "fst (validateAt zm i r acc) =
     fst acc @ [case parse DeviceSchema r of Some d \<Rightarrow> d | None \<Rightarrow> createSafeDevice zm r]"
  by (cases "parse DeviceSchema r") (simp_all add: validateAt_None validateAt_Some)

lemma validateAt_snd_mono: "set (snd acc) \<subseteq> set (snd (validateAt zm i r acc))"
  by (cases "parse DeviceSchema r") (auto simp: validateAt_None validateAt_Some)

lemma validateAt_snd_error:
  "parse DeviceSchema r = None \<Longrightarrow>
     (''Device '' @ showNat i @ '': Device schema validation failed: '' @ zm DeviceSchema r)
       \<in> set (snd (validateAt zm i r acc))"
  by (simp add: validateAt_None)

lemma validateEach_fst:
  "fst (validateEach zm k raws acc) =
     fst acc @ map (\<lambda>r. case parse DeviceSchema r of Some d \<Rightarrow> d
                          | None \<Rightarrow> createSafeDevice zm r) raws"
  by (induction raws arbitrary: k acc) (simp_all add: validateAt_fst)

lemma validateEach_snd_mono: "set (snd acc) \<subseteq> set (snd (validateEach zm k raws acc))"
proof (induction raws arbitrary: k acc)
  case Nil
  show ?case by simp
next
  case (Cons r raws)
  have "set (snd acc) \<subseteq> set (snd (validateAt zm k r acc))"
    by (rule validateAt_snd_mono)
  also have "\<dots> \<subseteq> set (snd (validateEach zm (k + 1) raws (validateAt zm k r acc)))"
    by (rule Cons)
  finally show ?case by simp
qed

lemma validateEach_snd_error:
  "i < length raws \<Longrightarrow> parse DeviceSchema (raws ! i) = None \<Longrightarrow>
     (''Device '' @ showNat (k + i) @ '': Device schema validation failed: ''
        @ zm DeviceSchema (raws ! i))
       \<in> set (snd (validateEach zm k raws acc))"
proof (induction raws arbitrary: i k acc)
  case Nil
  then show ?case by simp
next
  case (Cons r raws)
  show ?case
  proof (cases i)
    case 0
    with Cons.prems have "parse DeviceSchema r = None" by simp
    then have "(''Device '' @ showNat k @ '': Device schema validation failed: ''
        @ zm DeviceSchema r) \<in> set (snd (validateAt zm k r acc))"
      by (rule validateAt_snd_error)
    then show ?thesis
      using 0 validateEach_snd_mono [of "validateAt zm k r acc" zm "k + 1" raws] by auto
  next
    case (Suc j)
    with Cons.prems have "j < length raws" "parse DeviceSchema (raws ! j) = None"
      by simp_all
    from Cons.IH [OF this, of "k + 1" "validateAt zm k r acc"] Suc
    show ?thesis by simp
  qed
qed

lemma parse_response_fails:
  assumes "fieldOf rawResponse ''devices'' = Some (JArray rawDevices)"
    and "i < length rawDevices" and "parse DeviceSchema (rawDevices ! i) = None"
  shows "parse DeviceResponseSchema rawResponse = None"
proof -
  from assms(1) obtain members where m: "rawResponse = JObject members"
      "map_of members ''devices'' = Some (JArray rawDevices)"
    by (cases rawResponse) (auto simp: fieldOf_def)
  have "None \<in> set (map (parse DeviceSchema) rawDevices)"
    using assms(2,3) by (metis length_map nth_map nth_mem)
  then have "those (map (parse DeviceSchema) rawDevices) = None"
    by (rule those_None)
  then show ?thesis
    by (simp add: m DeviceResponseSchema_def)
qed

lemma safeGetArray_devices:
  "fieldOf rawResponse ''devices'' = Some (JArray rawDevices) \<Longrightarrow>
     safeGetArray rawResponse ''devices'' [] = rawDevices"
  by (cases rawResponse)
     (simp_all add: fieldOf_def safeGetArray_def safeGet_def splitOn_devices truthy_def
        isObjectType_def del: splitOn.simps)

subsection \<open>Claim C3\<close>

text \<open>
  C3: when the payload's \<open>devices\<close> array has at index \<open>i\<close> a record without an \<open>id\<close>,
  \<open>processDeviceResponse\<close> returns one device per raw record, the device at index \<open>i\<close>
  has the synthesized id \<open>unknown-device\<close>, \<open>hasValidationErrors\<close> is true, and the
  validation errors contain the entry \<open>Device i: Device schema validation failed: ...\<close>.
\<close>

theorem C3_missing_id:
  assumes "fieldOf rawResponse ''devices'' = Some (JArray rawDevices)"
    and "i < length rawDevices"
    and "fieldOf (rawDevices ! i) ''id'' = None"
    and "r = processDeviceResponse zodMessage rawResponse"
  shows "length (pr_devices r) = length rawDevices
    \<and> fieldOf (pr_devices r ! i) ''id'' = Some (JString ''unknown-device'')
    \<and> pr_hasValidationErrors r
    \<and> (''Device '' @ showNat i @ '': Device schema validation failed: ''
          @ zodMessage DeviceSchema (rawDevices ! i)) \<in> set (pr_validationErrors r)"
proof -
  let ?out = "validateEach zodMessage 0 rawDevices ([], [])"
  have bad: "parse DeviceSchema (rawDevices ! i) = None"
    using assms(3) by (rule parse_missing_id)
  have whole: "parse DeviceResponseSchema rawResponse = None"
    using assms(1,2) bad by (rule parse_response_fails)
  have r: "r = \<lparr> pr_devices = fst ?out, pr_validationErrors = snd ?out,
                  pr_hasValidationErrors = length (snd ?out) > 0 \<rparr>"
    unfolding assms(4)
    by (simp add: processDeviceResponse_def validateDeviceResponse_def whole
          safeGetArray_devices [OF assms(1)] Let_def split_beta)
  have d: "fst ?out = map (\<lambda>r. case parse DeviceSchema r of Some d \<Rightarrow> d
                          | None \<Rightarrow> createSafeDevice zodMessage r) rawDevices"
    by (simp add: validateEach_fst)
  have e: "(''Device '' @ showNat i @ '': Device schema validation failed: ''
          @ zodMessage DeviceSchema (rawDevices ! i)) \<in> set (snd ?out)"
    using validateEach_snd_error [OF assms(2) bad, of 0 zodMessage "([], [])"] by simp
  then have ne: "length (snd ?out) > 0"
    by (cases "snd ?out") auto
  have "fst ?out ! i = createSafeDevice zodMessage (rawDevices ! i)"
    using assms(2) bad by (simp add: d)
  then have "fieldOf (fst ?out ! i) ''id'' = Some (JString ''unknown-device'')"
    using createSafeDevice_missing_id [OF assms(3)] by simp
  with d e ne show ?thesis
    by (simp add: r)
qed

theorem C3_missing_id_witness:
  "fieldOf partialPayload ''devices'' =
     Some (JArray [JObject [(''id'', JString ''a''),
                            (''product'', JObject [(''name'', JString ''Dream Machine'')]),
                            (''line'', JObject [(''name'', JString ''UniFi'')])],
                   JObject [(''product'', JObject [(''name'', JString ''Switch'')]),
                            (''sysid'', JString ''e610'')]])
   \<and> fieldOf (JObject [(''product'', JObject [(''name'', JString ''Switch'')]),
                       (''sysid'', JString ''e610'')]) ''id'' = None
   \<and> length (pr_devices (processDeviceResponse (\<lambda>s j. ''invalid'') partialPayload)) = 2
   \<and> fieldOf (pr_devices (processDeviceResponse (\<lambda>s j. ''invalid'') partialPayload) ! 1) ''id''
       = Some (JString ''unknown-device'')
   \<and> pr_hasValidationErrors (processDeviceResponse (\<lambda>s j. ''invalid'') partialPayload)
   \<and> ''Device 1: Device schema validation failed: invalid''
       \<in> set (pr_validationErrors (processDeviceResponse (\<lambda>s j. ''invalid'') partialPayload))"
proof -
  let ?d0 = "JObject [(''id'', JString ''a''),
                            (''product'', JObject [(''name'', JString ''Dream Machine'')]),
                            (''line'', JObject [(''name'', JString ''UniFi'')])]"
  let ?d1 = "JObject [(''product'', JObject [(''name'', JString ''Switch'')]),
                       (''sysid'', JString ''e610'')]"
  have h1: "fieldOf partialPayload ''devices'' = Some (JArray [?d0, ?d1])"
    by (simp add: partialPayload_def fieldOf_def)
  have h2: "(1::nat) < length [?d0, ?d1]" by simp
  have h3: "fieldOf ([?d0, ?d1] ! 1) ''id'' = None"
    by (simp add: fieldOf_def)
  have n: "showNat (Suc 0) = ''1''" by code_simp
  from C3_missing_id [OF h1 h2 h3 refl, of "\<lambda>s j. ''invalid''"] h1 h3
  show ?thesis
    by (simp add: n)
qed

subsection \<open>Claim C4\<close>

text \<open>
  C4: the time-to-live is 300000 ms. A call less than 300000 ms after the stored
  timestamp returns the cached snapshot, leaves the state as it is and sends no request.
  A call at or after 300000 ms, or after \<open>clearCache\<close>, sends one request; when the
  request yields a payload, the processed devices are returned and stored with the time
  of storing as the new timestamp.
\<close>

theorem C4_cache_ttl:
  "CACHE_DURATION = 300000
   \<and> (cache svc = Some ds \<and> cacheTimestamp svc = Some t \<and> now - t < 300000 \<longrightarrow>
        fetchDevices zodMessage now outcome storeTime svc =
          (\<lparr> result_data = Some ds, result_loading = False, result_error = None \<rparr>, svc, 0))
   \<and> ((cache svc = Some ds \<and> cacheTimestamp svc = Some t \<and> 300000 \<le> now - t) \<or> svc = clearCache svc0 \<longrightarrow>
        snd (snd (fetchDevices zodMessage now outcome storeTime svc)) = 1
        \<and> (\<forall>rawData. fetchJson outcome = Inr rawData \<longrightarrow>
              fetchDevices zodMessage now outcome storeTime svc =
                (\<lparr> result_data = Some (pr_devices (processDeviceResponse zodMessage rawData)),
                   result_loading = False, result_error = None \<rparr>,
                 \<lparr> cache = Some (pr_devices (processDeviceResponse zodMessage rawData)),
                   cacheTimestamp = Some storeTime \<rparr>, 1)))"
proof -
  have d: "CACHE_DURATION = 300000"
    by (simp add: CACHE_DURATION_def)
  have hit: "fetchDevices zodMessage now outcome storeTime svc =
          (\<lparr> result_data = Some ds, result_loading = False, result_error = None \<rparr>, svc, 0)"
    if "cache svc = Some ds" "cacheTimestamp svc = Some t" "now - t < 300000"
    using that by (simp add: fetchDevices_def isCacheValid_def d)
  have inv: "\<not> isCacheValid svc now"
    if "(cache svc = Some ds \<and> cacheTimestamp svc = Some t \<and> 300000 \<le> now - t) \<or> svc = clearCache svc0"
    using that by (auto simp: isCacheValid_def d clearCache_def)
  have miss1: "snd (snd (fetchDevices zodMessage now outcome storeTime svc)) = 1"
    if "\<not> isCacheValid svc now"
    using that by (simp add: fetchDevices_def Let_def split: sum.splits)
  have miss2: "fetchDevices zodMessage now outcome storeTime svc =
                (\<lparr> result_data = Some (pr_devices (processDeviceResponse zodMessage rawData)),
                   result_loading = False, result_error = None \<rparr>,
                 \<lparr> cache = Some (pr_devices (processDeviceResponse zodMessage rawData)),
                   cacheTimestamp = Some storeTime \<rparr>, 1)"
    if "\<not> isCacheValid svc now" "fetchJson outcome = Inr rawData" for rawData
    using that by (simp add: fetchDevices_def Let_def)
  show ?thesis
    using d hit inv miss1 miss2 by blast
qed

theorem C4_cache_ttl_witness:
  "fetchDevices (\<lambda>s j. ''invalid'') 299999 (Rejects OtherValue) 299999 cachedService =
     (\<lparr> result_data = Some [JObject [(''id'', JString ''a'')]], result_loading = False,
        result_error = None \<rparr>, cachedService, 0)
   \<and> snd (snd (fetchDevices (\<lambda>s j. ''invalid'') 300001
          (Responds 200 (Inr partialPayload)) 300002 cachedService)) = 1
   \<and> cacheTimestamp (fst (snd (fetchDevices (\<lambda>s j. ''invalid'') 300001
          (Responds 200 (Inr partialPayload)) 300002 cachedService))) = Some 300002
   \<and> snd (snd (fetchDevices (\<lambda>s j. ''invalid'') 5
          (Responds 200 (Inr partialPayload)) 6 (clearCache cachedService))) = 1"
proof -
  let ?zm = "\<lambda>(s :: schema) (j :: json). ''invalid''"
  have c: "cache cachedService = Some [JObject [(''id'', JString ''a'')]]"
          "cacheTimestamp cachedService = Some 0"
    by (simp_all add: cachedService_def)
  have ok: "fetchJson (Responds 200 (Inr partialPayload)) = Inr partialPayload"
    by (simp add: fetchJson_def)
  have a: "fetchDevices ?zm 299999 (Rejects OtherValue) 299999 cachedService =
     (\<lparr> result_data = Some [JObject [(''id'', JString ''a'')]], result_loading = False,
        result_error = None \<rparr>, cachedService, 0)"
    using C4_cache_ttl [of cachedService "[JObject [(''id'', JString ''a'')]]" 0 299999 ?zm
        "Rejects OtherValue" 299999] c
    by simp
  have b: "snd (snd (fetchDevices ?zm 300001 (Responds 200 (Inr partialPayload)) 300002
          cachedService)) = 1
     \<and> fetchDevices ?zm 300001 (Responds 200 (Inr partialPayload)) 300002 cachedService =
       (\<lparr> result_data = Some (pr_devices (processDeviceResponse ?zm partialPayload)),
          result_loading = False, result_error = None \<rparr>,
        \<lparr> cache = Some (pr_devices (processDeviceResponse ?zm partialPayload)),
          cacheTimestamp = Some 300002 \<rparr>, 1)"
    using C4_cache_ttl [of cachedService "[JObject [(''id'', JString ''a'')]]" 0 300001 ?zm
        "Responds 200 (Inr partialPayload)" 300002] c ok
    by simp
  have d: "snd (snd (fetchDevices ?zm 5 (Responds 200 (Inr partialPayload)) 6
          (clearCache cachedService))) = 1"
    using C4_cache_ttl [of "clearCache cachedService" "[]" 0 5 ?zm
        "Responds 200 (Inr partialPayload)" 6 cachedService]
    by simp
  from a b d show ?thesis by simp
qed

subsection \<open>Claim C5\<close>

text \<open>
  C5, as stated, fails in its last part. The service asks the network only when the
  snapshot is missing or expired; after a failed request the expired snapshot is still
  in the \<open>cache\<close> field, but neither \<open>getCachedDevices\<close> nor the next \<open>fetchDevices\<close>
  returns it.
\<close>

theorem C5_stale_snapshot_counterexample:
  "fetchDevices (\<lambda>s j. ''invalid'') 300000 (Rejects (ErrorObject ''Failed to fetch'')) 300001
       cachedService =
     (\<lparr> result_data = None, result_loading = False,
        result_error = Some ''Network error - please check your connection'' \<rparr>,
      cachedService, 1)
   \<and> getCachedDevices cachedService 300000 = None
   \<and> getCachedDevices cachedService 300001 = None
   \<and> result_data (fst (fetchDevices (\<lambda>s j. ''invalid'') 300001
         (Rejects (ErrorObject ''Failed to fetch'')) 300002 cachedService)) = None"
  by code_simp

text \<open>
  C5 (amended): a rejected request, a status outside 200 to 299 and a body that does not
  parse all end in the \<open>catch\<close>. Then the service state is exactly what it was before the
  call, the result has no data and carries the error message, and one request was sent.
  The snapshot that was stored before stays stored but, being expired, is not retrievable:
  at that and any later time \<open>getCachedDevices\<close> returns nothing, and the next
  \<open>fetchDevices\<close> sends a new request and returns no data when that request fails too.
\<close>

theorem C5_failed_fetch:
  "fetchJson (Rejects e) = Inl e
   \<and> (\<not> (200 \<le> status \<and> status \<le> 299) \<longrightarrow>
        fetchJson (Responds status body) =
          Inl (ErrorObject (''HTTP error! status: '' @ showNat status)))
   \<and> (200 \<le> status \<and> status \<le> 299 \<longrightarrow> fetchJson (Responds status (Inl e)) = Inl e)
   \<and> (\<not> isCacheValid svc now \<and> fetchJson outcome = Inl e \<longrightarrow>
        fetchDevices zodMessage now outcome storeTime svc =
          (\<lparr> result_data = None, result_loading = False,
             result_error = Some (getErrorMessage e) \<rparr>, svc, 1)
        \<and> (now \<le> later \<longrightarrow>
             getCachedDevices svc later = None
             \<and> snd (snd (fetchDevices zodMessage later nextOutcome nextStoreTime svc)) = 1
             \<and> (fetchJson nextOutcome = Inl e' \<longrightarrow>
                  result_data (fst (fetchDevices zodMessage later nextOutcome nextStoreTime svc))
                    = None)))"
proof -
  have inv: "\<not> isCacheValid svc later"
    if "\<not> isCacheValid svc now" "now \<le> later"
    using that by (auto simp: isCacheValid_def split: option.splits)
  have stale: "getCachedDevices svc later = None"
    if "\<not> isCacheValid svc now" "now \<le> later"
    using inv [OF that] by (simp add: getCachedDevices_def)
  have again: "snd (snd (fetchDevices zodMessage later nextOutcome nextStoreTime svc)) = 1"
    if "\<not> isCacheValid svc now" "now \<le> later"
    using inv [OF that] by (simp add: fetchDevices_def Let_def split: sum.splits)
  have nodata:
    "result_data (fst (fetchDevices zodMessage later nextOutcome nextStoreTime svc)) = None"
    if "\<not> isCacheValid svc now" "now \<le> later" "fetchJson nextOutcome = Inl e'"
    using inv [OF that(1,2)] that(3) by (simp add: fetchDevices_def)
  have fail: "fetchDevices zodMessage now outcome storeTime svc =
          (\<lparr> result_data = None, result_loading = False,
             result_error = Some (getErrorMessage e) \<rparr>, svc, 1)"
    if "\<not> isCacheValid svc now" "fetchJson outcome = Inl e"
    using that by (simp add: fetchDevices_def)
  have kinds: "fetchJson (Rejects e) = Inl e
   \<and> (\<not> (200 \<le> status \<and> status \<le> 299) \<longrightarrow>
        fetchJson (Responds status body) =
          Inl (ErrorObject (''HTTP error! status: '' @ showNat status)))
   \<and> (200 \<le> status \<and> status \<le> 299 \<longrightarrow> fetchJson (Responds status (Inl e)) = Inl e)"
    by (auto simp: fetchJson_def)
  show ?thesis
    using kinds stale again nodata fail by blast
qed

theorem C5_failed_fetch_witness:
  "\<not> isCacheValid cachedService 300000
   \<and> fetchJson (Responds 404 (Inr JNull)) = Inl (ErrorObject ''HTTP error! status: 404'')
   \<and> fetchDevices (\<lambda>s j. ''invalid'') 300000 (Responds 404 (Inr JNull)) 300001 cachedService =
       (\<lparr> result_data = None, result_loading = False,
          result_error = Some ''Device data not found'' \<rparr>, cachedService, 1)
   \<and> getCachedDevices cachedService 300005 = None
   \<and> snd (snd (fetchDevices (\<lambda>s j. ''invalid'') 300005 (Rejects OtherValue) 300006
         cachedService)) = 1
   \<and> result_data (fst (fetchDevices (\<lambda>s j. ''invalid'') 300005 (Rejects OtherValue) 300006
         cachedService)) = None"
proof -
  let ?zm = "\<lambda>(s :: schema) (j :: json). ''invalid''"
  have h1: "\<not> isCacheValid cachedService 300000" by code_simp
  have h2: "\<not> (200 \<le> (404::nat) \<and> (404::nat) \<le> 299)" by simp
  have n: "''HTTP error! status: '' @ showNat 404 = ''HTTP error! status: 404''" by code_simp
  have m: "getErrorMessage (ErrorObject ''HTTP error! status: 404'') = ''Device data not found''"
    by code_simp
  have h4: "fetchJson (Rejects OtherValue) = Inl OtherValue"
    by (simp add: fetchJson_def)
  note c = C5_failed_fetch [of "ErrorObject ''HTTP error! status: 404''" 404 "Inr JNull"
      cachedService 300000 "Responds 404 (Inr JNull)" ?zm 300001 300005
      "Rejects OtherValue" 300006 OtherValue]
  from c h2 have h3: "fetchJson (Responds 404 (Inr JNull)) = Inl (ErrorObject ''HTTP error! status: 404'')"
    unfolding n by blast
  from c h1 h3 h4 have "fetchDevices ?zm 300000 (Responds 404 (Inr JNull)) 300001 cachedService =
       (\<lparr> result_data = None, result_loading = False,
          result_error = Some (getErrorMessage (ErrorObject ''HTTP error! status: 404'')) \<rparr>,
        cachedService, 1)
     \<and> getCachedDevices cachedService 300005 = None
     \<and> snd (snd (fetchDevices ?zm 300005 (Rejects OtherValue) 300006 cachedService)) = 1
     \<and> result_data (fst (fetchDevices ?zm 300005 (Rejects OtherValue) 300006 cachedService))
         = None"
    by simp
  with h1 h3 show ?thesis
    unfolding m by blast
qed

end
